theory Spec2Isabelle
  imports Main "HOL-Library.Log_Nat" "HOL-Library.AList"
begin

section \<open>JavaScript values and built-ins used by the two services\<close>

text \<open>
  Both source files are TypeScript. A thrown exception (a rejected promise of an
  \<^verbatim>\<open>async\<close> method) is the left summand of a result \<open>error + 'a\<close>.
  Strings are lists of ASCII characters.
\<close>

datatype error =
    Error string
  | TypeError
  | RangeError
  | SyntaxError

text \<open>
  A JavaScript number is an IEEE 754 binary64 value. A finite one is modelled by the
  rational it denotes (the two zeros are identified, which none of the functions below
  can tell apart); \<open>round_double\<close> rounds an exact rational result to the nearest
  binary64 value, ties to even, with gradual underflow and overflow to infinity
  (a rounded value of \<open>2 ^ 1024\<close> or more, that is of binary exponent above 1023).
\<close>

datatype jsnum = NaN | PosInf | NegInf | Fin rat

definition pow2 :: "int \<Rightarrow> rat" where
  "pow2 e = (if 0 \<le> e then 2 ^ nat e else 1 / 2 ^ nat (- e))"

definition pow10 :: "int \<Rightarrow> rat" where
  "pow10 e = (if 0 \<le> e then 10 ^ nat e else 1 / 10 ^ nat (- e))"

definition floorlog2 :: "rat \<Rightarrow> int" where
  "floorlog2 a = (let (n, d) = quotient_of a; e0 = bitlen n - bitlen d
     in if pow2 e0 \<le> a then e0 else e0 - 1)"

definition round_half_even :: "rat \<Rightarrow> int" where
  "round_half_even x = (let f = \<lfloor>x\<rfloor>; d = x - of_int f
     in if d < 1 / 2 then f else if 1 / 2 < d then f + 1 else if even f then f else f + 1)"

definition round_double :: "rat \<Rightarrow> jsnum" where
  "round_double r = (if r = 0 then Fin 0 else
     let a = \<bar>r\<bar>; e = max (floorlog2 a) (- 1022); p = e - 52;
         v = of_int (round_half_even (a / pow2 p)) * pow2 p
     in if 1023 < floorlog2 v then (if 0 < r then PosInf else NegInf)
        else Fin (if 0 < r then v else - v))"

definition js_negate :: "jsnum \<Rightarrow> jsnum" where
  "js_negate x = (case x of NaN \<Rightarrow> NaN | PosInf \<Rightarrow> NegInf | NegInf \<Rightarrow> PosInf | Fin r \<Rightarrow> Fin (- r))"

definition js_sign :: "jsnum \<Rightarrow> int" where
  "js_sign x = (case x of NaN \<Rightarrow> 0 | PosInf \<Rightarrow> 1 | NegInf \<Rightarrow> - 1
     | Fin r \<Rightarrow> (if r = 0 then 0 else if 0 < r then 1 else - 1))"

text \<open>The operator \<^verbatim>\<open>*\<close> on numbers.\<close>

definition js_times :: "jsnum \<Rightarrow> jsnum \<Rightarrow> jsnum" where
  "js_times x y = (case (x, y) of
       (Fin a, Fin b) \<Rightarrow> round_double (a * b)
     | _ \<Rightarrow> if x = NaN \<or> y = NaN \<or> js_sign x * js_sign y = 0 then NaN
            else if 0 < js_sign x * js_sign y then PosInf else NegInf)"

text \<open>
  The operators \<^verbatim>\<open>+\<close> and \<^verbatim>\<open>/\<close> on numbers. With the two zeros
  identified, a zero divisor is read as the positive zero.
\<close>

definition js_plus :: "jsnum \<Rightarrow> jsnum \<Rightarrow> jsnum" where
  "js_plus x y = (case (x, y) of
       (Fin a, Fin b) \<Rightarrow> round_double (a + b)
     | (Fin a, _) \<Rightarrow> y
     | (_, Fin b) \<Rightarrow> x
     | _ \<Rightarrow> if x = y then x else NaN)"

definition js_divide :: "jsnum \<Rightarrow> jsnum \<Rightarrow> jsnum" where
  "js_divide x y = (case (x, y) of
       (Fin a, Fin b) \<Rightarrow>
         if b = 0 then (if a = 0 then NaN else if 0 < a then PosInf else NegInf)
         else round_double (a / b)
     | (Fin a, _) \<Rightarrow> (if y = NaN then NaN else Fin 0)
     | (_, Fin b) \<Rightarrow>
         (if x = NaN then NaN else if (x = PosInf) = (0 \<le> b) then PosInf else NegInf)
     | _ \<Rightarrow> NaN)"

text \<open>\<^verbatim>\<open>Math.floor\<close>.\<close>

definition Math_floor :: "jsnum \<Rightarrow> jsnum" where
  "Math_floor x = (case x of Fin r \<Rightarrow> Fin (of_int \<lfloor>r\<rfloor>) | _ \<Rightarrow> x)"

text \<open>
  \<^verbatim>\<open>BigInt(number)\<close>: a RangeError unless the number is an integer
  (so for NaN and the infinities).
\<close>

definition NumberToBigInt :: "jsnum \<Rightarrow> error + int" where
  "NumberToBigInt x = (case x of
       Fin r \<Rightarrow> if of_int \<lfloor>r\<rfloor> = r then Inr \<lfloor>r\<rfloor> else Inl RangeError
     | _ \<Rightarrow> Inl RangeError)"

subsection \<open>Characters and digit strings\<close>

definition is_space :: "char \<Rightarrow> bool" where
  "is_space c = (let n = (of_char c :: nat) in (9 \<le> n \<and> n \<le> 13) \<or> n = 32)"

definition digit_of :: "char \<Rightarrow> nat option" where
  "digit_of c = (let n = (of_char c :: nat) in
     if 48 \<le> n \<and> n \<le> 57 then Some (n - 48)
     else if 97 \<le> n \<and> n \<le> 102 then Some (n - 87)
     else if 65 \<le> n \<and> n \<le> 70 then Some (n - 55)
     else None)"

definition is_digit_in :: "nat \<Rightarrow> char \<Rightarrow> bool" where
  "is_digit_in b c = (case digit_of c of Some v \<Rightarrow> v < b | None \<Rightarrow> False)"

definition digit_val :: "char \<Rightarrow> nat" where
  "digit_val c = (case digit_of c of Some v \<Rightarrow> v | None \<Rightarrow> 0)"

definition digits_val :: "nat \<Rightarrow> string \<Rightarrow> int" where
  "digits_val b ds = foldl (\<lambda>a c. int b * a + int (digit_val c)) 0 ds"

text \<open>A non-empty string of digits of base \<open>b\<close>, or nothing.\<close>

definition digits_in :: "nat \<Rightarrow> string \<Rightarrow> int option" where
  "digits_in b ds =
     (if ds \<noteq> [] \<and> list_all (is_digit_in b) ds then Some (digits_val b ds) else None)"

definition trim :: "string \<Rightarrow> string" where
  "trim s = rev (dropWhile is_space (rev (dropWhile is_space s)))"

text \<open>\<^verbatim>\<open>String.prototype.toLowerCase\<close> on ASCII strings.\<close>

definition toLowerCase_char :: "char \<Rightarrow> char" where
  "toLowerCase_char c = (let n = (of_char c :: nat) in
     if 65 \<le> n \<and> n \<le> 90 then char_of (n + 32) else c)"

definition toLowerCase :: "string \<Rightarrow> string" where
  "toLowerCase s = map toLowerCase_char s"

subsection \<open>Parsing numbers\<close>

text \<open>
  The exponent part of a decimal literal at the head of a string: its value and the
  rest of the string; without digits after the \<^verbatim>\<open>e\<close> there is no exponent part.
\<close>

definition exponent_part :: "string \<Rightarrow> int \<times> string" where
  "exponent_part t = (case t of
       [] \<Rightarrow> (0, t)
     | c # u \<Rightarrow>
         if c = CHR ''e'' \<or> c = CHR ''E'' then
           (let neg = (case u of [] \<Rightarrow> False | s # _ \<Rightarrow> s = CHR ''-'');
                v = (case u of [] \<Rightarrow> u | s # w \<Rightarrow> if s = CHR ''-'' \<or> s = CHR ''+'' then w else u);
                ds = takeWhile (is_digit_in 10) v
            in if ds = [] then (0, t)
               else ((if neg then - digits_val 10 ds else digits_val 10 ds),
                     dropWhile (is_digit_in 10) v))
         else (0, t))"

text \<open>
  The longest prefix that is a \<^verbatim>\<open>StrUnsignedDecimalLiteral\<close> of ECMAScript
  (\<^verbatim>\<open>Infinity\<close>, or digits with an optional fraction and exponent): its value as
  a number and the rest of the string; nothing when no prefix is such a literal.
\<close>

definition unsigned_decimal :: "string \<Rightarrow> (jsnum \<times> string) option" where
  "unsigned_decimal t =
     (if take 8 t = ''Infinity'' then Some (PosInf, drop 8 t)
      else
        let ip = takeWhile (is_digit_in 10) t;
            r1 = dropWhile (is_digit_in 10) t;
            dot = (case r1 of [] \<Rightarrow> False | c # _ \<Rightarrow> c = CHR ''.'');
            fp = (if dot then takeWhile (is_digit_in 10) (tl r1) else []);
            r2 = (if dot then dropWhile (is_digit_in 10) (tl r1) else r1)
        in if ip = [] \<and> fp = [] then None
           else
             let (ex, r3) = exponent_part r2
             in Some (round_double (of_int (digits_val 10 (ip @ fp)) * pow10 (ex - int (length fp))), r3))"

definition signed_decimal :: "string \<Rightarrow> (jsnum \<times> string) option" where
  "signed_decimal t = (case t of
       [] \<Rightarrow> None
     | c # u \<Rightarrow>
         if c = CHR ''-'' then map_option (\<lambda>(v, r). (js_negate v, r)) (unsigned_decimal u)
         else if c = CHR ''+'' then unsigned_decimal u
         else unsigned_decimal t)"

text \<open>
  \<^verbatim>\<open>parseFloat\<close>: leading white space is skipped, the longest decimal prefix is
  read, anything after it is ignored; NaN when there is no such prefix.
\<close>

definition parseFloat :: "string \<Rightarrow> jsnum" where
  "parseFloat s = (case signed_decimal (dropWhile is_space s) of
       None \<Rightarrow> NaN | Some (v, _) \<Rightarrow> v)"

text \<open>
  A \<^verbatim>\<open>0x\<close>, \<^verbatim>\<open>0o\<close> or \<^verbatim>\<open>0b\<close> integer literal: \<open>Some None\<close> when
  the prefix is there and the digits are not.
\<close>

definition non_decimal :: "string \<Rightarrow> int option option" where
  "non_decimal t =
     (if take 2 t = ''0x'' \<or> take 2 t = ''0X'' then Some (digits_in 16 (drop 2 t))
      else if take 2 t = ''0o'' \<or> take 2 t = ''0O'' then Some (digits_in 8 (drop 2 t))
      else if take 2 t = ''0b'' \<or> take 2 t = ''0B'' then Some (digits_in 2 (drop 2 t))
      else None)"

text \<open>
  \<^verbatim>\<open>BigInt(string)\<close>: white space is trimmed, the empty string is zero, a
  decimal literal may carry a sign, a literal with a radix prefix may not; everything
  else is a SyntaxError.
\<close>

definition StringToBigInt :: "string \<Rightarrow> error + int" where
  "StringToBigInt s =
     (let t = trim s in
      if t = [] then Inr 0
      else case non_decimal t of
          Some (Some n) \<Rightarrow> Inr n
        | Some None \<Rightarrow> Inl SyntaxError
        | None \<Rightarrow>
            (case (if hd t = CHR ''-'' then map_option uminus (digits_in 10 (tl t))
                   else if hd t = CHR ''+'' then digits_in 10 (tl t)
                   else digits_in 10 t) of
               None \<Rightarrow> Inl SyntaxError
             | Some v \<Rightarrow> Inr v))"

text \<open>
  \<^verbatim>\<open>Number(string)\<close>: the whole trimmed string must be a numeric literal,
  otherwise the result is NaN; the empty string is zero.
\<close>

definition StringToNumber :: "string \<Rightarrow> jsnum" where
  "StringToNumber s =
     (let t = trim s in
      if t = [] then Fin 0
      else case non_decimal t of
          Some (Some n) \<Rightarrow> round_double (of_int n)
        | Some None \<Rightarrow> NaN
        | None \<Rightarrow> (case signed_decimal t of Some (v, []) \<Rightarrow> v | _ \<Rightarrow> NaN))"

section \<open>Circle Gateway service (gateway-service.ts)\<close>

subsection \<open>Types\<close>

record UnifiedBalance =
  address :: string
  totalBalance :: int
  chainBalances :: "(int \<times> int) list"
  lastUpdated :: int

text \<open>
  \<open>chainBalances\<close> is a \<^verbatim>\<open>Record<number, bigint>\<close>: an object written by key.
  It is kept as an association list that \<open>AList.update\<close> writes, so each key occurs
  once; the object's values are the second components.
\<close>

record BurnIntent =
  depositor :: string
  amount :: int
  nonce :: int
  sourceDomain :: int
  destinationDomain :: int
  recipient :: string
  maxFee :: int
  deadline :: int

text \<open>One entry of \<^verbatim>\<open>GatewayBalanceResponse.balances\<close>.\<close>

record GatewayBalance =
  domain :: int
  balance :: string

text \<open>One entry of \<^verbatim>\<open>GatewayInfoResponse.domains\<close>.\<close>

record DomainInfo =
  chain :: string
  network :: string
  info_domain :: int
  walletContract :: "string option"
  minterContract :: "string option"

text \<open>One entry of the \<^verbatim>\<open>sources\<close> argument of \<^verbatim>\<open>transferToVault\<close>.\<close>

record Source =
  source_domain :: int
  source_amount :: string

record SignedIntent =
  burnIntent :: BurnIntent
  signature :: string

text \<open>One entry of \<^verbatim>\<open>TransferResponse.attestations\<close>.\<close>

record Attestation =
  attested_intent :: BurnIntent
  attestation :: string

text \<open>
  The EIP-712 payload that \<^verbatim>\<open>createBurnIntentTypedData\<close> returns. Its
  \<^verbatim>\<open>domain\<close> member is the record \<open>EIP712Domain\<close> in the field \<open>eip712_domain\<close>;
  its \<^verbatim>\<open>message\<close> has the eight members of a burn intent, the recipient being a
  hex string. \<^verbatim>\<open>walletContracts[source.domain]\<close> is \<^verbatim>\<open>undefined\<close> for a
  domain the table does not hold, hence the option.
\<close>

record EIP712Domain =
  name :: string
  version :: string
  chainId :: int
  verifyingContract :: "string option"

record TypedData =
  eip712_domain :: EIP712Domain
  types :: "(string \<times> (string \<times> string) list) list"
  primaryType :: string
  message :: BurnIntent

record WalletClient =
  account :: string
  wallet_chain :: string

text \<open>
  What the service reaches outside the process: the two POST endpoints and the GET
  endpoint of the Gateway API (a failed \<^verbatim>\<open>fetch\<close>, a status that is not ok and
  a body that is not the expected JSON are all an \<open>Inl\<close>), and the two functions of the
  signing library.
\<close>

record Env =
  post_balances :: "string \<Rightarrow> (string \<times> int) list \<Rightarrow> error + GatewayBalance list"
  post_transfer :: "SignedIntent list \<Rightarrow> error + Attestation list"
  get_info :: "error + DomainInfo list"
  privateKeyToAccount :: "string \<Rightarrow> error + string"
  signTypedData :: "WalletClient \<Rightarrow> TypedData \<Rightarrow> error + string"

subsection \<open>GatewayApiClient\<close>

definition DOMAINS :: "(string \<times> int) list" where
  "DOMAINS =
     [(''ethereum'', 0), (''mainnet'', 0), (''sepolia'', 0),
      (''avalanche'', 1), (''avalancheFuji'', 1),
      (''arbitrum'', 3), (''arbitrumSepolia'', 3),
      (''base'', 6), (''baseSepolia'', 6)]"

definition CHAINS :: "(int \<times> string) list" where
  "CHAINS = [(0, ''Ethereum''), (1, ''Avalanche''), (3, ''Arbitrum''), (6, ''Base'')]"

text \<open>
  \<^verbatim>\<open>balances(token, depositor, domains?)\<close>: one source per domain, all keys of
  \<open>CHAINS\<close> when no domains are given.
\<close>

definition balances :: "Env \<Rightarrow> string \<Rightarrow> string \<Rightarrow> int list option \<Rightarrow> error + GatewayBalance list" where
  "balances env token dep domains =
     (let sourceDomains = (case domains of Some ds \<Rightarrow> ds | None \<Rightarrow> map fst CHAINS)
      in post_balances env token (map (\<lambda>d. (dep, d)) sourceDomains))"

definition transfer :: "Env \<Rightarrow> SignedIntent list \<Rightarrow> error + Attestation list" where
  "transfer env burnIntents = post_transfer env burnIntents"

subsection \<open>Burn intent typed data\<close>

definition BURN_INTENT_TYPES :: "(string \<times> (string \<times> string) list) list" where
  "BURN_INTENT_TYPES =
     [(''BurnIntent'',
       [(''depositor'', ''address''), (''amount'', ''uint256''), (''nonce'', ''uint256''),
        (''sourceDomain'', ''uint32''), (''destinationDomain'', ''uint32''),
        (''recipient'', ''bytes32''), (''maxFee'', ''uint256''), (''deadline'', ''uint256'')])]"

definition createBurnIntentTypedData :: "BurnIntent \<Rightarrow> string option \<Rightarrow> int \<Rightarrow> TypedData" where
  "createBurnIntentTypedData intent walletContractAddress cid =
     (let recipientBytes32 = ''0x000000000000000000000000'' @ drop 2 (recipient intent)
      in \<lparr>eip712_domain =
            \<lparr>name = ''GatewayWallet'', version = ''1'', chainId = cid,
             verifyingContract = walletContractAddress\<rparr>,
          types = BURN_INTENT_TYPES,
          primaryType = ''BurnIntent'',
          message = intent\<lparr>recipient := recipientBytes32\<rparr>\<rparr>)"

subsection \<open>CircleGatewayService\<close>

record Service =
  balanceCache :: "string \<rightharpoonup> UnifiedBalance"
  walletClient :: "WalletClient option"
  serverAddress :: "string option"
  walletContracts :: "int \<rightharpoonup> string"
  vaultAddress :: string

text \<open>
  The field initialisers and the constructor, before \<^verbatim>\<open>initializeContracts\<close>
  has answered. The argument is the environment variable \<^verbatim>\<open>VAULT_ADDRESS\<close>;
  unset or empty, it gives the placeholder.
\<close>

definition new_service :: "string option \<Rightarrow> Service" where
  "new_service VAULT_ADDRESS =
     \<lparr>balanceCache = Map.empty,
      walletClient = None,
      serverAddress = None,
      walletContracts = [0 \<mapsto> ''0x...'', 1 \<mapsto> ''0x...'', 3 \<mapsto> ''0x...'', 6 \<mapsto> ''0x...''],
      vaultAddress = (case VAULT_ADDRESS of None \<Rightarrow> ''0x...''
                      | Some v \<Rightarrow> if v = [] then ''0x...'' else v)\<rparr>"

fun storeContracts :: "DomainInfo list \<Rightarrow> (int \<rightharpoonup> string) \<Rightarrow> (int \<rightharpoonup> string)" where
  "storeContracts [] wc = wc"
| "storeContracts (d # ds) wc =
     storeContracts ds
       (case walletContract d of
          None \<Rightarrow> wc
        | Some c \<Rightarrow> if c = [] then wc else wc(info_domain d \<mapsto> c))"

definition initializeContracts :: "Env \<Rightarrow> Service \<Rightarrow> Service" where
  "initializeContracts env s = (case get_info env of
       Inl e \<Rightarrow> s
     | Inr info \<Rightarrow> s\<lparr>walletContracts := storeContracts info (walletContracts s)\<rparr>)"

definition initialize :: "Env \<Rightarrow> string \<Rightarrow> Service \<Rightarrow> (error + unit) \<times> Service" where
  "initialize env privateKey s = (case privateKeyToAccount env privateKey of
       Inl e \<Rightarrow> (Inl e, s)
     | Inr a \<Rightarrow>
         (Inr (),
          s\<lparr>serverAddress := Some a,
            walletClient := Some \<lparr>account = a, wallet_chain = ''arbitrumSepolia''\<rparr>\<rparr>))"

text \<open>
  The loop of \<^verbatim>\<open>getUnifiedBalance\<close> over \<^verbatim>\<open>response.balances\<close>, with its
  two variables \<^verbatim>\<open>chainBalances\<close> and \<^verbatim>\<open>totalBalance\<close>. The amount is
  \<^verbatim>\<open>BigInt(Math.floor(parseFloat(balance.balance) * 1e6))\<close>, which throws for a
  balance that is not a number.
\<close>

definition parseAmount :: "string \<Rightarrow> error + int" where
  "parseAmount b = NumberToBigInt (Math_floor (js_times (parseFloat b) (Fin 1000000)))"

fun sumBalances :: "GatewayBalance list \<Rightarrow> (int \<times> int) list \<Rightarrow> int \<Rightarrow> error + ((int \<times> int) list \<times> int)" where
  "sumBalances [] cb tot = Inr (cb, tot)"
| "sumBalances (b # bs) cb tot = (case parseAmount (balance b) of
       Inl e \<Rightarrow> Inl e
     | Inr a \<Rightarrow> sumBalances bs (AList.update (domain b) a cb) (tot + a))"

text \<open>
  \<^verbatim>\<open>getUnifiedBalance(address)\<close>. \<open>now\<close> is the reading of \<^verbatim>\<open>Date.now()\<close>
  (each path reads the clock once). The \<^verbatim>\<open>try\<close> block is the inner case; the
  cache is written last in it, so a failure leaves the cache as it was.
\<close>

definition getUnifiedBalance :: "Env \<Rightarrow> int \<Rightarrow> Service \<Rightarrow> string \<Rightarrow> (error + UnifiedBalance) \<times> Service" where
  "getUnifiedBalance env now s addr =
     (case (case balances env ''USDC'' addr None of
              Inl e \<Rightarrow> Inl e
            | Inr response \<Rightarrow> sumBalances response [] 0) of
        Inr (cb, tot) \<Rightarrow>
          (let unified = \<lparr>address = addr, totalBalance = tot, chainBalances = cb,
                          lastUpdated = now\<rparr>
           in (Inr unified,
               s\<lparr>balanceCache := (balanceCache s)(toLowerCase addr \<mapsto> unified)\<rparr>))
      | Inl e \<Rightarrow>
          (case balanceCache s (toLowerCase addr) of
             Some cached \<Rightarrow> (Inr cached, s)
           | None \<Rightarrow>
               (Inr \<lparr>address = addr, totalBalance = 0, chainBalances = [],
                     lastUpdated = now\<rparr>, s)))"

text \<open>\<^verbatim>\<open>getChainIdForDomain\<close>: \<^verbatim>\<open>mapping[domain] || 0\<close>.\<close>

definition chainIdMapping :: "(int \<times> int) list" where
  "chainIdMapping = [(0, 11155111), (1, 43113), (3, 421614), (6, 84532)]"

definition getChainIdForDomain :: "int \<Rightarrow> int" where
  "getChainIdForDomain d = (case map_of chainIdMapping d of
       None \<Rightarrow> 0
     | Some c \<Rightarrow> if c = 0 then 0 else c)"

text \<open>
  \<^verbatim>\<open>BigInt(Math.floor(Date.now() / 1000) + 3600)\<close>, for the reading \<open>now\<close> of
  \<^verbatim>\<open>Date.now()\<close>, an integral number of milliseconds.
\<close>

definition deadlineFrom :: "int \<Rightarrow> error + int" where
  "deadlineFrom now =
     NumberToBigInt (js_plus (Math_floor (js_divide (Fin (of_int now)) (Fin 1000))) (Fin 3600))"

text \<open>
  What \<^verbatim>\<open>transferToVault\<close> does outside the service, in order: each call of
  \<^verbatim>\<open>walletClient.signTypedData\<close> with its payload, and the call of
  \<^verbatim>\<open>gatewayClient.transfer\<close> with the batch.
\<close>

datatype effect = Signed TypedData | Submitted "SignedIntent list"

text \<open>
  The loop over \<^verbatim>\<open>sources\<close>. \<open>clock\<close> gives the readings of
  \<^verbatim>\<open>Date.now()\<close> of one call in milliseconds, \<open>clock 0\<close> for the deadline and
  \<open>clock i\<close> for the nonce of the \<open>i\<close>-th source; \<open>signedIntents\<close> is the array the
  loop pushes to.
\<close>

fun signSources :: "Env \<Rightarrow> Service \<Rightarrow> WalletClient \<Rightarrow> (nat \<Rightarrow> int) \<Rightarrow> string \<Rightarrow> int \<Rightarrow> int \<Rightarrow> nat \<Rightarrow>
     SignedIntent list \<Rightarrow> Source list \<Rightarrow> (error + SignedIntent list) \<times> effect list" where
  "signSources env s w clock userAddress dest dl i signedIntents [] = (Inr signedIntents, [])"
| "signSources env s w clock userAddress dest dl i signedIntents (source # rest) =
     (case StringToBigInt (source_amount source) of
        Inl e \<Rightarrow> (Inl e, [])
      | Inr a \<Rightarrow>
          (let intent = \<lparr>depositor = userAddress, amount = a, nonce = clock i,
                         sourceDomain = source_domain source, destinationDomain = dest,
                         recipient = vaultAddress s, maxFee = 0, deadline = dl\<rparr>;
               cid = getChainIdForDomain (source_domain source);
               walletContract = walletContracts s (source_domain source);
               typedData = createBurnIntentTypedData intent walletContract cid
           in case signTypedData env w typedData of
                Inl e \<Rightarrow> (Inl e, [Signed typedData])
              | Inr sg \<Rightarrow>
                  (let (r, effs) = signSources env s w clock userAddress dest dl (Suc i)
                         (signedIntents @ [\<lparr>burnIntent = intent, signature = sg\<rparr>]) rest
                   in (r, Signed typedData # effs))))"

text \<open>
  \<^verbatim>\<open>transferToVault(userAddress, sources, _totalAmount)\<close>. The result is the
  returned \<^verbatim>\<open>attestations\<close> (with \<^verbatim>\<open>success: true\<close>) or the exception,
  and the effects. The nonce \<^verbatim>\<open>BigInt(Date.now())\<close> is the clock reading itself,
  an integral number.
\<close>

definition transferToVault :: "Env \<Rightarrow> (nat \<Rightarrow> int) \<Rightarrow> Service \<Rightarrow> string \<Rightarrow> Source list \<Rightarrow> int \<Rightarrow>
     (error + Attestation list) \<times> effect list" where
  "transferToVault env clock s userAddress sources totalAmount =
     (case walletClient s of
        None \<Rightarrow> (Inl (Error ''Service not initialized''), [])
      | Some w \<Rightarrow>
          (let dest = (case map_of DOMAINS ''arbitrumSepolia'' of Some d \<Rightarrow> d | None \<Rightarrow> 0)
           in case deadlineFrom (clock 0) of
                Inl e \<Rightarrow> (Inl e, [])
              | Inr dl \<Rightarrow>
                  (case signSources env s w clock userAddress dest dl 1 [] sources of
                     (Inl e, effs) \<Rightarrow> (Inl e, effs)
                   | (Inr signedIntents, effs) \<Rightarrow>
                       (case transfer env signedIntents of
                          Inl e \<Rightarrow> (Inl e, effs @ [Submitted signedIntents])
                        | Inr result \<Rightarrow> (Inr result, effs @ [Submitted signedIntents])))))"

section \<open>Oracle service: \<^verbatim>\<open>parseOracleConfig\<close>\<close>

text \<open>
  The argument of \<^verbatim>\<open>parseOracleConfig\<close> has type \<^verbatim>\<open>unknown\<close>; the values
  modelled are those \<^verbatim>\<open>JSON.parse\<close> produces, and \<^verbatim>\<open>undefined\<close>. An
  object is the list of its own members; a member read takes the first binding of a key.
\<close>

datatype json =
    JUndefined
  | JNull
  | JBool bool
  | JNumber jsnum
  | JString string
  | JArray "json list"
  | JObject "(string \<times> json) list"

fun truthy :: "json \<Rightarrow> bool" where
  "truthy JUndefined = False"
| "truthy JNull = False"
| "truthy (JBool b) = b"
| "truthy (JNumber n) = (n \<noteq> NaN \<and> n \<noteq> Fin 0)"
| "truthy (JString s) = (s \<noteq> [])"
| "truthy (JArray xs) = True"
| "truthy (JObject kvs) = True"

text \<open>\<^verbatim>\<open>typeof v === 'object'\<close>.\<close>

fun typeof_object :: "json \<Rightarrow> bool" where
  "typeof_object JNull = True"
| "typeof_object (JArray xs) = True"
| "typeof_object (JObject kvs) = True"
| "typeof_object v = False"

text \<open>The operator \<^verbatim>\<open>||\<close>.\<close>

definition js_or :: "json \<Rightarrow> json \<Rightarrow> json" where
  "js_or a b = (if truthy a then a else b)"

text \<open>
  The member read \<^verbatim>\<open>config.k\<close> on an object or an array, for a key that is
  neither an array index nor a member of \<^verbatim>\<open>Object.prototype\<close> or
  \<^verbatim>\<open>Array.prototype\<close> (the function reads \<^verbatim>\<open>type\<close>, \<^verbatim>\<open>asset\<close>,
  \<^verbatim>\<open>condition\<close> and \<^verbatim>\<open>targetPrice\<close>).
\<close>

definition get_field :: "json \<Rightarrow> string \<Rightarrow> json" where
  "get_field v k = (case v of
       JObject kvs \<Rightarrow> (case map_of kvs k of Some x \<Rightarrow> x | None \<Rightarrow> JUndefined)
     | _ \<Rightarrow> JUndefined)"

fun join :: "(error + string) list \<Rightarrow> error + string" where
  "join [] = Inr []"
| "join [x] = x"
| "join (x # y # ys) = (case x of
       Inl e \<Rightarrow> Inl e
     | Inr a \<Rightarrow> (case join (y # ys) of Inl e \<Rightarrow> Inl e | Inr b \<Rightarrow> Inr (a @ '','' @ b)))"

text \<open>
  \<^verbatim>\<open>String(v)\<close>. \<open>ns\<close> is \<^verbatim>\<open>Number.prototype.toString\<close>, a total
  function that is left open. An array is joined with commas, \<^verbatim>\<open>null\<close> and
  \<^verbatim>\<open>undefined\<close> elements being empty. An object is converted by its
  \<^verbatim>\<open>toString\<close> and \<^verbatim>\<open>valueOf\<close> methods: a parsed object that has a member
  named \<^verbatim>\<open>toString\<close> hides the inherited method with a value that cannot be
  called, \<^verbatim>\<open>valueOf\<close> gives no primitive, and the conversion throws a TypeError.
\<close>

fun ToString :: "(jsnum \<Rightarrow> string) \<Rightarrow> json \<Rightarrow> error + string" where
  "ToString ns JUndefined = Inr ''undefined''"
| "ToString ns JNull = Inr ''null''"
| "ToString ns (JBool b) = Inr (if b then ''true'' else ''false'')"
| "ToString ns (JNumber n) = Inr (ns n)"
| "ToString ns (JString s) = Inr s"
| "ToString ns (JArray xs) =
     join (map (\<lambda>x. if x = JUndefined \<or> x = JNull then Inr [] else ToString ns x) xs)"
| "ToString ns (JObject kvs) =
     (if ''toString'' \<in> fst ` set kvs then Inl TypeError else Inr ''[object Object]'')"

text \<open>\<^verbatim>\<open>Number(v)\<close>: an array or object is converted to a string first.\<close>

definition ToNumber :: "(jsnum \<Rightarrow> string) \<Rightarrow> json \<Rightarrow> error + jsnum" where
  "ToNumber ns v = (case v of
       JUndefined \<Rightarrow> Inr NaN
     | JNull \<Rightarrow> Inr (Fin 0)
     | JBool b \<Rightarrow> Inr (Fin (if b then 1 else 0))
     | JNumber n \<Rightarrow> Inr n
     | JString s \<Rightarrow> Inr (StringToNumber s)
     | _ \<Rightarrow> (case ToString ns v of Inl e \<Rightarrow> Inl e | Inr str \<Rightarrow> Inr (StringToNumber str)))"

text \<open>
  \<^verbatim>\<open>PriceOracleConfig\<close> without its constant member \<^verbatim>\<open>type: 'price'\<close>. The
  condition is cast, not checked, so it is any value.
\<close>

record PriceOracleConfig =
  asset :: string
  condition :: json
  targetPrice :: jsnum

text \<open>
  \<^verbatim>\<open>OracleConfig\<close>: \<^verbatim>\<open>{type: 'price', config}\<close> or \<^verbatim>\<open>{type: 'manual'}\<close>.
\<close>

datatype OracleConfig = PriceConfig PriceOracleConfig | ManualConfig

definition parseOracleConfig :: "(jsnum \<Rightarrow> string) \<Rightarrow> json \<Rightarrow> error + OracleConfig option" where
  "parseOracleConfig ns json =
     (if \<not> truthy json \<or> \<not> typeof_object json then Inr None
      else if get_field json ''type'' = JString ''price'' then
        (case ToString ns (js_or (get_field json ''asset'') (JString [])) of
           Inl e \<Rightarrow> Inl e
         | Inr a \<Rightarrow>
             (case ToNumber ns (js_or (get_field json ''targetPrice'') (JNumber (Fin 0))) of
                Inl e \<Rightarrow> Inl e
              | Inr t \<Rightarrow>
                  Inr (Some (PriceConfig
                    \<lparr>asset = a,
                     condition = js_or (get_field json ''condition'') (JString ''>''),
                     targetPrice = t\<rparr>))))
      else if get_field json ''type'' = JString ''manual'' then Inr (Some ManualConfig)
      else Inr None)"

section \<open>Vocabulary of the properties\<close>

text \<open>The sum of the values of a per-domain balance object.\<close>

definition sum_values :: "(int \<times> int) list \<Rightarrow> int" where
  "sum_values cb = sum_list (map snd cb)"

text \<open>
  A unified balance is consistent when its per-domain object has each key once and its
  total is the sum of that object's values; a cache is consistent when every entry is.
\<close>

definition consistent :: "UnifiedBalance \<Rightarrow> bool" where
  "consistent u =
     (distinct (map fst (chainBalances u)) \<and> totalBalance u = sum_values (chainBalances u))"

definition cache_consistent :: "Service \<Rightarrow> bool" where
  "cache_consistent s = (\<forall>k u. balanceCache s k = Some u \<longrightarrow> consistent u)"

text \<open>Every cache entry is stored under the lower-case form of its own address.\<close>

definition cache_keyed :: "Service \<Rightarrow> bool" where
  "cache_keyed s = (\<forall>k u. balanceCache s k = Some u \<longrightarrow> toLowerCase (address u) = k)"


text \<open>The payloads signed and the batches submitted, read off the effects.\<close>

fun signed_payloads :: "effect list \<Rightarrow> TypedData list" where
  "signed_payloads [] = []"
| "signed_payloads (Signed td # es) = td # signed_payloads es"
| "signed_payloads (Submitted b # es) = signed_payloads es"

fun submitted_batches :: "effect list \<Rightarrow> SignedIntent list list" where
  "submitted_batches [] = []"
| "submitted_batches (Signed td # es) = submitted_batches es"
| "submitted_batches (Submitted b # es) = b # submitted_batches es"

text \<open>The bytes a string of hex digits denotes, two digits a byte.\<close>

fun hexToBytes :: "string \<Rightarrow> nat list option" where
  "hexToBytes [] = Some []"
| "hexToBytes [c] = None"
| "hexToBytes (a # b # cs) =
     (case (digit_of a, digit_of b, hexToBytes cs) of
        (Some h, Some l, Some bs) \<Rightarrow> Some ((16 * h + l) # bs)
      | _ \<Rightarrow> None)"

text \<open>
  A value whose conversion to a string does not throw: no object with a member named
  \<^verbatim>\<open>toString\<close>, at the top or as an element of an array.
\<close>

fun convertible :: "json \<Rightarrow> bool" where
  "convertible (JObject kvs) = (''toString'' \<notin> fst ` set kvs)"
| "convertible (JArray xs) = (\<forall>x \<in> set xs. convertible x)"
| "convertible v = True"

text \<open>An object (or array): what passes the first test of \<^verbatim>\<open>parseOracleConfig\<close>.\<close>

definition is_object :: "json \<Rightarrow> bool" where
  "is_object j = (truthy j \<and> typeof_object j)"

subsection \<open>Sample environments\<close>

text \<open>
  A Gateway API that answers the balances call with two entries and attests every
  intent, and a signer that signs everything.
\<close>

definition sample_env :: Env where
  "sample_env =
     \<lparr>post_balances = (\<lambda>token srcs.
        Inr [\<lparr>domain = 0, balance = ''10.0''\<rparr>, \<lparr>domain = 1, balance = ''5.5''\<rparr>]),
      post_transfer = (\<lambda>sis.
        Inr (map (\<lambda>si. \<lparr>attested_intent = burnIntent si, attestation = ''0xa7''\<rparr>) sis)),
      get_info = Inr [],
      privateKeyToAccount = (\<lambda>k. Inr ''0x00000000000000000000000000000000000000aa''),
      signTypedData = (\<lambda>w td. Inr ''0x51'')\<rparr>"

text \<open>The same, with a balances call that fails.\<close>

definition offline_env :: Env where
  "offline_env = sample_env\<lparr>post_balances := (\<lambda>token srcs. Inl (Error ''Gateway API error: 503''))\<rparr>"

text \<open>The same, with a balances response that names domain 0 twice.\<close>

definition duplicate_env :: Env where
  "duplicate_env = sample_env\<lparr>post_balances := (\<lambda>token srcs.
     Inr [\<lparr>domain = 0, balance = ''10.0''\<rparr>, \<lparr>domain = 0, balance = ''10.0''\<rparr>])\<rparr>"

definition sample_vault :: string where
  "sample_vault = ''0x1111111111111111111111111111111111111111''"

definition sample_wallet :: WalletClient where
  "sample_wallet = \<lparr>account = ''0x00000000000000000000000000000000000000aa'',
      wallet_chain = ''arbitrumSepolia''\<rparr>"

text \<open>A service after \<^verbatim>\<open>initialize\<close>, and one whose cache holds an entry.\<close>

definition sample_service :: Service where
  "sample_service = snd (initialize sample_env ''0x01'' (new_service (Some sample_vault)))"

definition cached_service :: Service where
  "cached_service = snd (getUnifiedBalance sample_env 1700000000000 (new_service None) ''0xAB'')"

definition sample_clock :: "nat \<Rightarrow> int" where
  "sample_clock i = 1700000000123 + int i"

text \<open>
  A stand-in for \<^verbatim>\<open>Number.prototype.toString\<close> in the instances, none of which
  converts a number to a string.
\<close>

definition sample_number_string :: "jsnum \<Rightarrow> string" where
  "sample_number_string n = ''NaN''"

section \<open>Rounding to binary64\<close>

lemma pow2_powi: "pow2 e = 2 powi e"
  by (simp add: pow2_def power_int_def field_simps)

lemma pow2_pos: "0 < pow2 e"
  by (simp add: pow2_powi)

lemma pow2_less: "x < y \<Longrightarrow> pow2 x < pow2 y"
  by (simp add: pow2_powi power_int_strict_increasing)

lemma pow2_le: "x \<le> y \<Longrightarrow> pow2 x \<le> pow2 y"
  using pow2_less [of x y] by (cases "x = y") auto

lemma pow2_less_cancel: "pow2 x < pow2 y \<Longrightarrow> x < y"
  using pow2_le [of y x] by (cases "x < y") auto

lemma pow2_add: "pow2 (x + y) = pow2 x * pow2 y"
  by (simp add: pow2_powi power_int_add)

lemma floorlog2_le:
  assumes "0 < a"
  shows "pow2 (floorlog2 a) \<le> a"
proof -
  obtain n d where q: "quotient_of a = (n, d)"
    by (cases "quotient_of a")
  then have d: "0 < d" and a: "a = of_int n / of_int d"
    by (rule quotient_of_denom_pos, rule quotient_of_div)
  from assms a d have n: "0 < n"
    by (simp add: zero_less_divide_iff)
  define e0 where "e0 = bitlen n - bitlen d"
  show ?thesis
  proof (cases "pow2 e0 \<le> a")
    case True
    then show ?thesis
      by (simp add: floorlog2_def q e0_def)
  next
    case False
    have bn: "1 \<le> bitlen n" and bd: "1 \<le> bitlen d"
      using n d bitlen_eq_zero_iff [of n] bitlen_eq_zero_iff [of d] bitlen_nonneg [of n]
        bitlen_nonneg [of d] by linarith+
    from bitlen_bounds [OF n] have "2 ^ nat (bitlen n - 1) \<le> n"
      by simp
    then have "(of_int (2 ^ nat (bitlen n - 1)) :: rat) \<le> of_int n"
      by (simp only: of_int_le_iff)
    then have ln: "pow2 (bitlen n - 1) \<le> of_int n"
      using bn by (simp add: pow2_def)
    from bitlen_bounds [OF d] have "d < 2 ^ nat (bitlen d)"
      by simp
    then have "(of_int d :: rat) < of_int (2 ^ nat (bitlen d))"
      by (simp only: of_int_less_iff)
    then have ud: "of_int d < pow2 (bitlen d)"
      using bd by (simp add: pow2_def)
    have "pow2 (e0 - 1) * pow2 (bitlen d) = pow2 (bitlen n - 1)"
      by (simp add: e0_def flip: pow2_add)
    then have "pow2 (e0 - 1) * of_int d \<le> of_int n"
      using ln ud pow2_pos [of "e0 - 1"] d
      by (smt (verit) mult_le_cancel_left_pos mult_less_cancel_left_pos order_less_imp_le order_trans)
    then have "pow2 (e0 - 1) \<le> a"
      using d by (simp add: a pos_le_divide_eq)
    with False show ?thesis
      by (simp add: floorlog2_def q e0_def)
  qed
qed

lemma floorlog2_less:
  assumes "0 < a" and "a < pow2 k"
  shows "floorlog2 a < k"
  using floorlog2_le [OF assms(1)] assms(2) pow2_less_cancel [of "floorlog2 a" k] by simp

lemma round_half_even_error: "\<bar>of_int (round_half_even x) - x\<bar> \<le> 1 / 2"
proof -
  define f where "f = \<lfloor>x\<rfloor>"
  have f1: "of_int f \<le> x" and f2: "x < of_int f + 1"
    unfolding f_def by linarith+
  consider "x - of_int f < 1 / 2" | "1 / 2 < x - of_int f" | "x - of_int f = 1 / 2"
    by linarith
  then show ?thesis
  proof cases
    case 1
    then have "round_half_even x = f"
      by (simp add: round_half_even_def Let_def f_def)
    with 1 f1 show ?thesis by simp
  next
    case 2
    then have "round_half_even x = f + 1"
      by (simp add: round_half_even_def Let_def f_def)
    with 2 f2 show ?thesis by simp
  next
    case 3
    then have "round_half_even x = f \<or> round_half_even x = f + 1"
      by (simp add: round_half_even_def Let_def f_def)
    with 3 show ?thesis by auto
  qed
qed

lemma round_half_even_int: "round_half_even (of_int k) = k"
  by (simp add: round_half_even_def)

lemma floorlog2_zero: "floorlog2 0 = - 2"
  by (simp add: floorlog2_def pow2_def bitlen_alt_def Let_def)

text \<open>An integer below \<open>2 ^ 53\<close> in magnitude is a binary64 value.\<close>

lemma round_double_int:
  assumes "\<bar>m\<bar> < 2 ^ 53"
  shows "round_double (of_int m) = Fin (of_int m)"
proof (cases "m = 0")
  case True
  then show ?thesis by (simp add: round_double_def)
next
  case False
  define a :: rat where "a = \<bar>of_int m\<bar>"
  have a_int: "a = of_int \<bar>m\<bar>"
    by (simp add: a_def)
  from False have a_pos: "0 < a"
    by (simp add: a_def)
  have "a < pow2 53"
    using assms by (simp add: a_int pow2_def)
  with a_pos have fl: "floorlog2 a < 53"
    by (rule floorlog2_less)
  define e where "e = max (floorlog2 a) (- 1022)"
  define p where "p = e - 52"
  from fl have p: "p \<le> 0"
    by (simp add: p_def e_def)
  have "a / pow2 p = a * pow2 (- p)"
    using pow2_add [of p "- p"] pow2_pos [of p] by (simp add: pow2_def field_simps)
  also have "\<dots> = of_int (\<bar>m\<bar> * 2 ^ nat (- p))"
    using p by (simp add: a_int pow2_def)
  finally have q: "round_half_even (a / pow2 p) = \<bar>m\<bar> * 2 ^ nat (- p)"
    by (simp only: round_half_even_int)
  have v: "of_int (round_half_even (a / pow2 p)) * pow2 p = a"
    unfolding q using p pow2_add [of "- p" p] by (simp add: a_int pow2_def)
  from fl have nov: "\<not> 1023 < floorlog2 a"
    by simp
  from False show ?thesis
    unfolding round_double_def Let_def
    using v nov a_pos
    by (simp add: a_def [symmetric] e_def [symmetric] p_def [symmetric])
       (simp add: a_def abs_if split: if_splits)
qed

lemma round_half_even_nonneg: "0 \<le> x \<Longrightarrow> 0 \<le> round_half_even x"
  by (simp add: round_half_even_def Let_def)

text \<open>Below \<open>2 ^ 43\<close> in magnitude, rounding moves a value by at most \<open>2 ^ - 11\<close>.\<close>

lemma round_double_error:
  assumes "r \<noteq> 0" and "\<bar>r\<bar> < 2 ^ 43"
  shows "\<exists>v. round_double r = Fin v \<and> \<bar>v - r\<bar> \<le> 1 / 2 ^ 11"
proof -
  define a where "a = \<bar>r\<bar>"
  from assms(1) have a_pos: "0 < a"
    by (simp add: a_def)
  have "a < pow2 43"
    using assms(2) by (simp add: a_def pow2_def)
  with a_pos have fl: "floorlog2 a < 43"
    by (rule floorlog2_less)
  define e where "e = max (floorlog2 a) (- 1022)"
  define p where "p = e - 52"
  define q where "q = round_half_even (a / pow2 p)"
  define v where "v = of_int q * pow2 p"
  from fl have p: "p \<le> - 10"
    by (simp add: p_def e_def)
  then have pp: "pow2 p \<le> 1 / 2 ^ 10"
    using pow2_le [of p "- 10"] by (simp add: pow2_def)
  have "v - a = (of_int q - a / pow2 p) * pow2 p"
    using pow2_pos [of p] by (simp add: v_def left_diff_distrib)
  then have "\<bar>v - a\<bar> = \<bar>of_int q - a / pow2 p\<bar> * pow2 p"
    using pow2_pos [of p] by (simp add: abs_mult)
  also have "\<dots> \<le> (1 / 2) * pow2 p"
    using round_half_even_error [of "a / pow2 p"] pow2_pos [of p]
    by (simp add: q_def mult_right_mono)
  also have "\<dots> \<le> 1 / 2 ^ 11"
    using pp by simp
  finally have err: "\<bar>v - a\<bar> \<le> 1 / 2 ^ 11" .
  have "0 \<le> a / pow2 p"
    using a_pos pow2_pos [of p] by simp
  then have "0 \<le> q"
    unfolding q_def by (rule round_half_even_nonneg)
  then have v_nonneg: "0 \<le> v"
    using pow2_pos [of p] by (simp add: v_def)
  have nov: "\<not> 1023 < floorlog2 v"
  proof (cases "v = 0")
    case True
    then show ?thesis by (simp add: floorlog2_zero)
  next
    case False
    with v_nonneg have "0 < v" by simp
    moreover have "v \<le> a + 1 / 2 ^ 11"
      using err unfolding abs_le_iff by linarith
    then have "v < pow2 44"
      using \<open>a < pow2 43\<close> by (simp add: pow2_def)
    ultimately have "floorlog2 v < 44"
      by (rule floorlog2_less)
    then show ?thesis by simp
  qed
  have rd: "round_double r = Fin (if 0 < r then v else - v)"
    using assms(1) nov
    by (simp add: round_double_def Let_def a_def [symmetric] e_def [symmetric] p_def [symmetric]
        q_def [symmetric] v_def [symmetric])
  have "\<bar>(if 0 < r then v else - v) - r\<bar> = \<bar>v - a\<bar>"
    using assms(1) by (auto simp: a_def abs_if)
  with err rd show ?thesis
    by simp
qed

lemma NumberToBigInt_int: "NumberToBigInt (Fin (of_int k)) = Inr k"
  by (simp add: NumberToBigInt_def)

text \<open>
  Time values lie within \<open>8.64 * 10 ^ 15\<close> milliseconds of the epoch. For them
  \<^verbatim>\<open>BigInt(Math.floor(Date.now() / 1000) + 3600)\<close> is the integer quotient plus 3600:
  the rounded quotient is not an integer unless the exact quotient is.
\<close>

lemma deadlineFrom_exact:
  assumes "\<bar>now\<bar> \<le> 8640000000000000"
  shows "deadlineFrom now = Inr (now div 1000 + 3600)"
proof -
  define k where "k = now div 1000"
  define m where "m = now mod 1000"
  have now: "now = 1000 * k + m" and m: "0 \<le> m" "m < 1000"
    by (simp_all add: k_def m_def)
  have k_bound: "\<bar>k\<bar> \<le> 8640000000000"
    using assms unfolding k_def by linarith
  define x :: rat where "x = of_int now / 1000"
  have x: "x = of_int k + of_int m / 1000"
    by (simp add: x_def now)
  have fl: "\<exists>v. round_double x = Fin v \<and> \<lfloor>v\<rfloor> = k"
  proof (cases "m = 0")
    case True
    then have "x = of_int k" by (simp add: x)
    moreover have "round_double (of_int k) = Fin (of_int k)"
      using k_bound by (intro round_double_int) simp
    ultimately show ?thesis by simp
  next
    case False
    with m have m1: "1 \<le> m" "m \<le> 999" by simp_all
    then have frac: "1 / 1000 \<le> (of_int m :: rat) / 1000" "(of_int m :: rat) / 1000 \<le> 999 / 1000"
      by simp_all
    from frac x have lo: "of_int k + 1 / 1000 \<le> x" and hi: "x \<le> of_int k + 999 / 1000"
      by simp_all
    have k_rat: "\<bar>of_int k :: rat\<bar> \<le> 8640000000000"
      using k_bound by (metis of_int_abs of_int_le_iff of_int_numeral)
    have "x \<noteq> 0"
    proof
      assume "x = 0"
      with lo hi have "(of_int k :: rat) < 0" "- 1 < (of_int k :: rat)" by simp_all
      then have "k < 0" "- 1 < k" by simp_all
      then show False by simp
    qed
    moreover have "\<bar>x\<bar> < 2 ^ 43"
      using lo hi k_rat by (simp add: abs_le_iff abs_less_iff)
    ultimately obtain v where v: "round_double x = Fin v" "\<bar>v - x\<bar> \<le> 1 / 2 ^ 11"
      using round_double_error by blast
    from v(2) have "x - 1 / 2 ^ 11 \<le> v" "v \<le> x + 1 / 2 ^ 11"
      unfolding abs_le_iff by linarith+
    with lo hi have "of_int k \<le> v" "v < of_int k + 1"
      by simp_all
    then have "\<lfloor>v\<rfloor> = k"
      by (simp add: floor_unique)
    with v(1) show ?thesis by simp
  qed
  then obtain v where v: "round_double x = Fin v" "\<lfloor>v\<rfloor> = k"
    by blast
  have "round_double (of_int k + 3600) = round_double (of_int (k + 3600))"
    by simp
  also have "\<dots> = Fin (of_int (k + 3600))"
    using k_bound by (intro round_double_int) simp
  finally have plus: "round_double (of_int k + 3600) = Fin (of_int (k + 3600))" .
  have big: "NumberToBigInt (Fin (of_int (k + 3600))) = Inr (k + 3600)"
    by (rule NumberToBigInt_int)
  have "deadlineFrom now = NumberToBigInt (round_double (of_int k + 3600))"
    unfolding deadlineFrom_def using v
    by (simp add: js_divide_def js_plus_def Math_floor_def x_def [symmetric])
  also have "\<dots> = Inr (k + 3600)"
    unfolding plus by (rule big)
  finally show ?thesis
    by (simp add: k_def)
qed

section \<open>Evaluations used by the instances\<close>

lemma parseAmount_10: "parseAmount ''10.0'' = Inr 10000000"
  by code_simp

lemma parseAmount_5_5: "parseAmount ''5.5'' = Inr 5500000"
  by code_simp

lemma StringToBigInt_1000000: "StringToBigInt ''1000000'' = Inr 1000000"
  by code_simp

lemma StringToBigInt_1: "StringToBigInt ''1'' = Inr 1"
  by code_simp

lemma toLowerCase_0xAB: "toLowerCase ''0xAB'' = ''0xab''"
  by code_simp

lemma toLowerCase_0xAb: "toLowerCase ''0xAb'' = ''0xab''"
  by code_simp

lemma chain_keys: "map fst CHAINS = [0, 1, 3, 6]"
  by (simp add: CHAINS_def)

lemma sample_service_wallet: "walletClient sample_service = Some sample_wallet"
  by (simp add: sample_service_def initialize_def sample_env_def new_service_def sample_wallet_def)

lemma sample_service_vault: "vaultAddress sample_service = sample_vault"
  by (simp add: sample_service_def initialize_def sample_env_def new_service_def sample_vault_def)

lemma new_service_wallet: "walletClient (new_service v) = None"
  by (simp add: new_service_def)

lemma new_service_cache: "balanceCache (new_service v) = Map.empty"
  by (simp add: new_service_def)

lemma sample_balances:
  "balances sample_env ''USDC'' a None =
     Inr [\<lparr>domain = 0, balance = ''10.0''\<rparr>, \<lparr>domain = 1, balance = ''5.5''\<rparr>]"
  by (simp add: balances_def sample_env_def)

lemma offline_balances:
  "balances offline_env ''USDC'' a None = Inl (Error ''Gateway API error: 503'')"
  by (simp add: balances_def offline_env_def sample_env_def)

lemma cached_service_cache:
  "balanceCache cached_service =
     [''0xab'' \<mapsto> \<lparr>address = ''0xAB'', totalBalance = 15500000,
        chainBalances = [(0, 10000000), (1, 5500000)], lastUpdated = 1700000000000\<rparr>]"
  by (simp add: cached_service_def getUnifiedBalance_def sample_balances parseAmount_10
      parseAmount_5_5 toLowerCase_0xAB new_service_cache Let_def)

lemma sample_env_sign: "signTypedData sample_env w td = Inr ''0x51''"
  by (simp add: sample_env_def)

lemma sample_env_transfer:
  "transfer sample_env sis =
     Inr (map (\<lambda>si. \<lparr>attested_intent = burnIntent si, attestation = ''0xa7''\<rparr>) sis)"
  by (simp add: sample_env_def transfer_def)

lemma sample_deadline: "deadlineFrom 1700000000123 = Inr 1700003600"
  using deadlineFrom_exact [of 1700000000123] by simp

lemma arbitrumSepolia_domain: "map_of DOMAINS ''arbitrumSepolia'' = Some 3"
  by (simp add: DOMAINS_def)

section \<open>Balance aggregation\<close>

text \<open>
  C2. When the external balances call fails, \<^verbatim>\<open>getUnifiedBalance\<close> returns the
  entry cached for the address (under its lower-case form), unchanged, when there is
  one, and otherwise an entry for the address with total 0, an empty per-domain object
  and the current clock reading. In both cases the call returns a value, not the
  failure, and the cache is left as it was.
\<close>

theorem getUnifiedBalance_fallback:
  assumes "balances env ''USDC'' a None = Inl e"
  shows "getUnifiedBalance env now s a =
     (Inr (case balanceCache s (toLowerCase a) of
             Some cached \<Rightarrow> cached
           | None \<Rightarrow> \<lparr>address = a, totalBalance = 0, chainBalances = [], lastUpdated = now\<rparr>),
      s)"
  using assms by (simp add: getUnifiedBalance_def split: option.splits)

theorem getUnifiedBalance_fallback_witness:
  "getUnifiedBalance offline_env 1700000000999 cached_service ''0xAb'' =
     (Inr \<lparr>address = ''0xAB'', totalBalance = 15500000,
        chainBalances = [(0, 10000000), (1, 5500000)], lastUpdated = 1700000000000\<rparr>,
      cached_service) \<and>
   getUnifiedBalance offline_env 1700000000999 (new_service None) ''0xAb'' =
     (Inr \<lparr>address = ''0xAb'', totalBalance = 0, chainBalances = [],
        lastUpdated = 1700000000999\<rparr>,
      new_service None)"
  using getUnifiedBalance_fallback [OF offline_balances, where a = "''0xAb''"
      and now = 1700000000999 and s = cached_service]
    getUnifiedBalance_fallback [OF offline_balances, where a = "''0xAb''"
      and now = 1700000000999 and s = "new_service None"]
  by (simp add: toLowerCase_0xAb cached_service_cache new_service_cache)

text \<open>
  C7. The registry knows the domains 0, 1, 3 and 6, so the balances call asks for these
  four. When the response holds exactly domain 0 with "10.0" and domain 1 with "5.5",
  \<^verbatim>\<open>getUnifiedBalance\<close> returns the total 15,500,000 and a per-domain object
  that maps 0 to 10,000,000 and 1 to 5,500,000 and has no member for 3 or 6.
\<close>

theorem getUnifiedBalance_two_domains:
  assumes "post_balances env ''USDC'' [(a, 0), (a, 1), (a, 3), (a, 6)] =
     Inr [\<lparr>domain = 0, balance = ''10.0''\<rparr>, \<lparr>domain = 1, balance = ''5.5''\<rparr>]"
  shows "\<exists>u s'. getUnifiedBalance env now s a = (Inr u, s') \<and>
     totalBalance u = 15500000 \<and>
     chainBalances u = [(0, 10000000), (1, 5500000)] \<and>
     map_of (chainBalances u) = [0 \<mapsto> 10000000, 1 \<mapsto> 5500000] \<and>
     map_of (chainBalances u) 3 = None \<and> map_of (chainBalances u) 6 = None"
proof -
  have "balances env ''USDC'' a None =
     Inr [\<lparr>domain = 0, balance = ''10.0''\<rparr>, \<lparr>domain = 1, balance = ''5.5''\<rparr>]"
    using assms by (simp add: balances_def chain_keys)
  then show ?thesis
    by (simp add: getUnifiedBalance_def parseAmount_10 parseAmount_5_5 Let_def fun_eq_iff)
qed

theorem getUnifiedBalance_two_domains_witness:
  "\<exists>u s'. getUnifiedBalance sample_env 1700000000000 (new_service None) ''0xab'' = (Inr u, s') \<and>
     totalBalance u = 15500000 \<and>
     chainBalances u = [(0, 10000000), (1, 5500000)] \<and>
     map_of (chainBalances u) = [0 \<mapsto> 10000000, 1 \<mapsto> 5500000] \<and>
     map_of (chainBalances u) 3 = None \<and> map_of (chainBalances u) 6 = None"
proof -
  have "post_balances sample_env ''USDC'' [(''0xab'', 0), (''0xab'', 1), (''0xab'', 3), (''0xab'', 6)] =
     Inr [\<lparr>domain = 0, balance = ''10.0''\<rparr>, \<lparr>domain = 1, balance = ''5.5''\<rparr>]"
    by (simp add: sample_env_def)
  then show ?thesis
    by (rule getUnifiedBalance_two_domains)
qed

subsection \<open>The total and the per-domain object\<close>

lemma update_fresh: "k \<notin> fst ` set al \<Longrightarrow> AList.update k v al = al @ [(k, v)]"
  by (induction al) auto

lemma sum_values_snoc: "sum_values (cb @ [(k, v)]) = sum_values cb + v"
  by (simp add: sum_values_def)

lemma sumBalances_sum:
  assumes "sumBalances bs cb tot = Inr (cb', tot')"
    and "distinct (map domain bs)"
    and "set (map domain bs) \<inter> fst ` set cb = {}"
    and "distinct (map fst cb)"
  shows "tot' - sum_values cb' = tot - sum_values cb \<and> distinct (map fst cb')"
  using assms
proof (induction bs arbitrary: cb tot)
  case Nil
  then show ?case by simp
next
  case (Cons b bs)
  from Cons.prems(1) obtain a where a: "parseAmount (balance b) = Inr a"
    by (cases "parseAmount (balance b)") simp_all
  from Cons.prems(3) have fresh: "domain b \<notin> fst ` set cb"
    by auto
  have upd: "AList.update (domain b) a cb = cb @ [(domain b, a)]"
    using fresh by (rule update_fresh)
  from Cons.prems(1) a upd
  have run: "sumBalances bs (cb @ [(domain b, a)]) (tot + a) = Inr (cb', tot')"
    by simp
  have d1: "distinct (map domain bs)"
    using Cons.prems(2) by simp
  have d2: "set (map domain bs) \<inter> fst ` set (cb @ [(domain b, a)]) = {}"
    using Cons.prems(2) Cons.prems(3) by auto
  have d3: "distinct (map fst (cb @ [(domain b, a)]))"
    using Cons.prems(4) fresh by simp
  from Cons.IH [OF run d1 d2 d3] show ?case
    by (simp add: sum_values_snoc)
qed

lemma sumBalances_consistent:
  assumes "sumBalances bs [] 0 = Inr (cb, tot)" and "distinct (map domain bs)"
  shows "tot = sum_values cb \<and> distinct (map fst cb)"
  using sumBalances_sum [OF assms(1) assms(2)] by (simp add: sum_values_def)

lemma new_service_consistent: "cache_consistent (new_service v)"
  by (simp add: cache_consistent_def new_service_def)

text \<open>
  C1, as far as it holds. When no domain occurs twice in the response of the balances
  call (it may be empty, or lack domains), and every entry of the cache is consistent,
  the unified balance that \<^verbatim>\<open>getUnifiedBalance\<close> returns has a total equal to the
  sum of the values of its per-domain object, each key occurring once, and the cache
  stays consistent. The cache the constructor leaves is empty, hence consistent. This
  covers the three paths: the computed balance, the cached entry and the zero entry.
\<close>

theorem getUnifiedBalance_total_is_sum:
  assumes "cache_consistent s"
    and "\<forall>response. balances env ''USDC'' a None = Inr response \<longrightarrow>
           distinct (map domain response)"
  shows "\<exists>u s'. getUnifiedBalance env now s a = (Inr u, s') \<and>
     totalBalance u = sum_values (chainBalances u) \<and>
     distinct (map fst (chainBalances u)) \<and> cache_consistent s'"
proof (cases "case balances env ''USDC'' a None of
              Inl e \<Rightarrow> Inl e
            | Inr response \<Rightarrow> sumBalances response [] 0")
  case (Inl e)
  show ?thesis
  proof (cases "balanceCache s (toLowerCase a)")
    case None
    with Inl assms(1) show ?thesis
      by (simp add: getUnifiedBalance_def sum_values_def)
  next
    case (Some cached)
    with assms(1) have "consistent cached"
      by (auto simp: cache_consistent_def)
    with Inl Some assms(1) show ?thesis
      by (simp add: getUnifiedBalance_def consistent_def)
  qed
next
  case (Inr p)
  obtain cb tot where p: "p = (cb, tot)"
    by (cases p)
  from Inr obtain response where
    resp: "balances env ''USDC'' a None = Inr response"
    and run: "sumBalances response [] 0 = Inr (cb, tot)"
    unfolding p by (cases "balances env ''USDC'' a None") simp_all
  from assms(2) resp have "distinct (map domain response)"
    by simp
  with run have ok: "tot = sum_values cb \<and> distinct (map fst cb)"
    by (rule sumBalances_consistent)
  from Inr p ok assms(1) show ?thesis
    by (simp add: getUnifiedBalance_def Let_def cache_consistent_def consistent_def)
qed

theorem getUnifiedBalance_total_is_sum_witness:
  "\<exists>u s'. getUnifiedBalance sample_env 1700000000000 (new_service None) ''0xab'' = (Inr u, s') \<and>
     totalBalance u = sum_values (chainBalances u) \<and>
     distinct (map fst (chainBalances u)) \<and> cache_consistent s'"
proof -
  have "\<forall>response. balances sample_env ''USDC'' ''0xab'' None = Inr response \<longrightarrow>
           distinct (map domain response)"
    by (simp add: sample_balances)
  with new_service_consistent show ?thesis
    by (rule getUnifiedBalance_total_is_sum)
qed

text \<open>
  The condition on the response is needed: the loop adds every entry to the total and
  writes it under its domain, so of two entries for one domain both are in the total
  and only the second is in the object. Here the response names domain 0 twice with
  "10.0": the total is 20,000,000 and the values sum to 10,000,000.
\<close>

theorem getUnifiedBalance_total_is_sum_counterexample:
  "fst (getUnifiedBalance duplicate_env 1700000000000 (new_service None) ''0xab'') =
     Inr \<lparr>address = ''0xab'', totalBalance = 20000000, chainBalances = [(0, 10000000)],
          lastUpdated = 1700000000000\<rparr> \<and>
   sum_values [(0, 10000000)] = 10000000"
  by (simp add: getUnifiedBalance_def balances_def duplicate_env_def sample_env_def
      parseAmount_10 Let_def sum_values_def)

subsection \<open>The address field\<close>

lemma new_service_keyed: "cache_keyed (new_service v)"
  by (simp add: cache_keyed_def new_service_def)

lemma cached_service_keyed: "cache_keyed cached_service"
  by (simp add: cache_keyed_def cached_service_cache toLowerCase_0xAB)

text \<open>
  C8, as far as it holds. \<^verbatim>\<open>getUnifiedBalance\<close> lower-cases the address for the
  cache key only. On the success path (the balances call answers and every balance is
  read) the returned balance carries the address as given; when the call or the reading
  fails and the cache has no entry under the lower-case address, the zero balance
  carries the address as given; when it fails and the cache has an entry, that entry
  is returned, with the address it was stored with. In each case the address field
  equals the argument up to letter case, provided every cache entry is stored under the
  lower-case form of its address, which the call preserves.
\<close>

theorem getUnifiedBalance_address:
  assumes "cache_keyed s" and "getUnifiedBalance env now s a = (r, s')"
  shows "(\<forall>response cb tot.
        balances env ''USDC'' a None = Inr response \<and>
        sumBalances response [] 0 = Inr (cb, tot) \<longrightarrow>
        r = Inr \<lparr>address = a, totalBalance = tot, chainBalances = cb, lastUpdated = now\<rparr>) \<and>
     ((\<exists>e. balances env ''USDC'' a None = Inl e) \<or>
      (\<exists>response e. balances env ''USDC'' a None = Inr response \<and>
         sumBalances response [] 0 = Inl e) \<longrightarrow>
        (case balanceCache s (toLowerCase a) of
           Some cached \<Rightarrow> r = Inr cached
         | None \<Rightarrow>
             r = Inr \<lparr>address = a, totalBalance = 0, chainBalances = [], lastUpdated = now\<rparr>)) \<and>
     (\<exists>u. r = Inr u \<and> toLowerCase (address u) = toLowerCase a) \<and>
     cache_keyed s'"
proof (cases "balances env ''USDC'' a None")
  case (Inl e)
  show ?thesis
  proof (cases "balanceCache s (toLowerCase a)")
    case None
    with Inl assms show ?thesis
      by (auto simp: getUnifiedBalance_def)
  next
    case (Some cached)
    with assms(1) have "toLowerCase (address cached) = toLowerCase a"
      by (simp add: cache_keyed_def)
    with Inl Some assms show ?thesis
      by (auto simp: getUnifiedBalance_def)
  qed
next
  case resp: (Inr response)
  show ?thesis
  proof (cases "sumBalances response [] 0")
    case (Inl e)
    show ?thesis
    proof (cases "balanceCache s (toLowerCase a)")
      case None
      with resp Inl assms show ?thesis
        by (auto simp: getUnifiedBalance_def)
    next
      case (Some cached)
      with assms(1) have "toLowerCase (address cached) = toLowerCase a"
        by (simp add: cache_keyed_def)
      with resp Inl Some assms show ?thesis
        by (auto simp: getUnifiedBalance_def)
    qed
  next
    case (Inr p)
    obtain cb tot where p: "p = (cb, tot)"
      by (cases p)
    from resp Inr p assms show ?thesis
      by (auto simp: getUnifiedBalance_def Let_def cache_keyed_def split: if_splits)
  qed
qed

theorem getUnifiedBalance_address_witness:
  "fst (getUnifiedBalance sample_env 1700000000999 cached_service ''0xAb'') =
     Inr \<lparr>address = ''0xAb'', totalBalance = 15500000,
        chainBalances = [(0, 10000000), (1, 5500000)], lastUpdated = 1700000000999\<rparr> \<and>
   fst (getUnifiedBalance offline_env 1700000000999 (new_service None) ''0xAb'') =
     Inr \<lparr>address = ''0xAb'', totalBalance = 0, chainBalances = [],
        lastUpdated = 1700000000999\<rparr> \<and>
   fst (getUnifiedBalance offline_env 1700000000999 cached_service ''0xAb'') =
     Inr \<lparr>address = ''0xAB'', totalBalance = 15500000,
        chainBalances = [(0, 10000000), (1, 5500000)], lastUpdated = 1700000000000\<rparr> \<and>
   toLowerCase ''0xAB'' = toLowerCase ''0xAb''"
proof -
  have sum: "sumBalances [\<lparr>domain = 0, balance = ''10.0''\<rparr>, \<lparr>domain = 1, balance = ''5.5''\<rparr>] [] 0 =
      Inr ([(0, 10000000), (1, 5500000)], 15500000)"
    by (simp add: parseAmount_10 parseAmount_5_5)
  obtain r1 s1 where c1: "getUnifiedBalance sample_env 1700000000999 cached_service ''0xAb'' = (r1, s1)"
    by (cases "getUnifiedBalance sample_env 1700000000999 cached_service ''0xAb''")
  obtain r2 s2 where c2: "getUnifiedBalance offline_env 1700000000999 (new_service None) ''0xAb'' = (r2, s2)"
    by (cases "getUnifiedBalance offline_env 1700000000999 (new_service None) ''0xAb''")
  obtain r3 s3 where c3: "getUnifiedBalance offline_env 1700000000999 cached_service ''0xAb'' = (r3, s3)"
    by (cases "getUnifiedBalance offline_env 1700000000999 cached_service ''0xAb''")
  from getUnifiedBalance_address [OF cached_service_keyed c1] sample_balances [of "''0xAb''"] sum
  have "r1 = Inr \<lparr>address = ''0xAb'', totalBalance = 15500000,
        chainBalances = [(0, 10000000), (1, 5500000)], lastUpdated = 1700000000999\<rparr>"
    by blast
  moreover
  from getUnifiedBalance_address [OF new_service_keyed c2] offline_balances [of "''0xAb''"]
  have "r2 = Inr \<lparr>address = ''0xAb'', totalBalance = 0, chainBalances = [],
        lastUpdated = 1700000000999\<rparr>"
    by (simp add: new_service_cache toLowerCase_0xAb)
  moreover
  from getUnifiedBalance_address [OF cached_service_keyed c3] offline_balances [of "''0xAb''"]
  have "r3 = Inr \<lparr>address = ''0xAB'', totalBalance = 15500000,
        chainBalances = [(0, 10000000), (1, 5500000)], lastUpdated = 1700000000000\<rparr>"
    by (simp add: cached_service_cache toLowerCase_0xAb)
  ultimately show ?thesis
    using c1 c2 c3 by (simp add: toLowerCase_0xAb toLowerCase_0xAB)
qed

text \<open>
  With the argument \<^verbatim>\<open>0xAB\<close> the address field is \<^verbatim>\<open>0xAB\<close>, on the success
  path and on the zero fallback, and not the lower-case \<^verbatim>\<open>0xab\<close>.
\<close>

theorem getUnifiedBalance_address_counterexample:
  "fst (getUnifiedBalance sample_env 1700000000000 (new_service None) ''0xAB'') =
     Inr \<lparr>address = ''0xAB'', totalBalance = 15500000,
          chainBalances = [(0, 10000000), (1, 5500000)], lastUpdated = 1700000000000\<rparr> \<and>
   fst (getUnifiedBalance offline_env 1700000000000 (new_service None) ''0xAB'') =
     Inr \<lparr>address = ''0xAB'', totalBalance = 0, chainBalances = [],
          lastUpdated = 1700000000000\<rparr> \<and>
   toLowerCase ''0xAB'' = ''0xab'' \<and> ''0xAB'' \<noteq> ''0xab''"
  by (simp add: getUnifiedBalance_def sample_balances offline_balances parseAmount_10
      parseAmount_5_5 Let_def new_service_cache toLowerCase_0xAB)

section \<open>Transfer to the vault\<close>

text \<open>
  C3. In the state the constructor leaves, and in any state in which no wallet client
  is bound, \<^verbatim>\<open>transferToVault\<close> throws the error "Service not initialized" for
  every user address, list of sources and total amount, and has no effect: nothing is
  signed and nothing is submitted.
\<close>

theorem transferToVault_not_initialized:
  assumes "walletClient s = None"
  shows "transferToVault env clock s userAddress sources totalAmount =
     (Inl (Error ''Service not initialized''), [])"
  using assms by (simp add: transferToVault_def)

theorem transferToVault_not_initialized_witness:
  "walletClient (new_service None) = None \<and>
   transferToVault sample_env sample_clock (new_service None) ''0xab''
       [\<lparr>source_domain = 0, source_amount = ''1000000''\<rparr>] 1000000 =
     (Inl (Error ''Service not initialized''), [])"
  using transferToVault_not_initialized [OF new_service_wallet [of None], where
      env = sample_env and clock = sample_clock and userAddress = "''0xab''"
      and sources = "[\<lparr>source_domain = 0, source_amount = ''1000000''\<rparr>]"
      and totalAmount = 1000000]
  by (simp add: new_service_wallet)

text \<open>
  The other operations leave the service without a wallet client when it has none, and
  so does an \<^verbatim>\<open>initialize\<close> that throws: only a successful
  \<^verbatim>\<open>initialize\<close> ends the state in which \<^verbatim>\<open>transferToVault\<close> refuses.
\<close>

lemma getUnifiedBalance_walletClient:
  "walletClient (snd (getUnifiedBalance env now s a)) = walletClient s"
  by (simp add: getUnifiedBalance_def Let_def split: sum.splits option.splits prod.splits)

lemma initializeContracts_walletClient:
  "walletClient (initializeContracts env s) = walletClient s"
  by (simp add: initializeContracts_def split: sum.splits)

lemma initialize_failed:
  "privateKeyToAccount env privateKey = Inl e \<Longrightarrow> initialize env privateKey s = (Inl e, s)"
  by (simp add: initialize_def)

text \<open>
  C5. The result and the effects of \<^verbatim>\<open>transferToVault\<close> do not depend on its
  \<^verbatim>\<open>totalAmount\<close> argument: two calls that differ in nothing else sign the same
  payloads, submit the same batch and return the same. So a total that is not the sum
  of the sources' amounts does not make the call fail; the instance below is the call
  with one source of 1000000 and a total of 2000000.
\<close>

theorem transferToVault_ignores_totalAmount:
  "transferToVault env clock s userAddress sources totalAmount =
   transferToVault env clock s userAddress sources totalAmount'"
  by (simp add: transferToVault_def)

theorem transferToVault_ignores_totalAmount_witness:
  "fst (transferToVault sample_env sample_clock sample_service ''0xab''
       [\<lparr>source_domain = 0, source_amount = ''1000000''\<rparr>] 2000000) =
     Inr [\<lparr>attested_intent =
             \<lparr>depositor = ''0xab'', amount = 1000000, nonce = 1700000000124, sourceDomain = 0,
              destinationDomain = 3, recipient = sample_vault, maxFee = 0,
              deadline = 1700003600\<rparr>,
           attestation = ''0xa7''\<rparr>]"
proof -
  have "fst (transferToVault sample_env sample_clock sample_service ''0xab''
       [\<lparr>source_domain = 0, source_amount = ''1000000''\<rparr>] 1000000) =
     Inr [\<lparr>attested_intent =
             \<lparr>depositor = ''0xab'', amount = 1000000, nonce = 1700000000124, sourceDomain = 0,
              destinationDomain = 3, recipient = sample_vault, maxFee = 0,
              deadline = 1700003600\<rparr>,
           attestation = ''0xa7''\<rparr>]"
    by (simp add: transferToVault_def sample_service_wallet sample_service_vault
        StringToBigInt_1000000 arbitrumSepolia_domain sample_clock_def sample_deadline
        sample_env_sign sample_env_transfer Let_def)
  then show ?thesis
    using transferToVault_ignores_totalAmount [of sample_env sample_clock sample_service
        "''0xab''" "[\<lparr>source_domain = 0, source_amount = ''1000000''\<rparr>]" 2000000 1000000]
    by simp
qed

subsection \<open>The payloads signed and the batch submitted\<close>

lemma signed_payloads_append:
  "signed_payloads (es @ fs) = signed_payloads es @ signed_payloads fs"
  by (induction es rule: signed_payloads.induct) simp_all

lemma submitted_batches_append:
  "submitted_batches (es @ fs) = submitted_batches es @ submitted_batches fs"
  by (induction es rule: submitted_batches.induct) simp_all

lemma signSources_payloads:
  assumes "signSources env s w clock userAddress dest dl i acc srcs = (r, effs)"
  shows "submitted_batches effs = [] \<and>
     map (\<lambda>td. sourceDomain (message td)) (signed_payloads effs) =
       take (length (signed_payloads effs)) (map source_domain srcs) \<and>
     (\<forall>td \<in> set (signed_payloads effs).
        deadline (message td) = dl \<and>
        recipient (message td) = ''0x000000000000000000000000'' @ drop 2 (vaultAddress s))"
  using assms
proof (induction srcs arbitrary: i acc r effs)
  case Nil
  then show ?case by auto
next
  case (Cons src rest)
  show ?case
  proof (cases "StringToBigInt (source_amount src)")
    case (Inl e)
    with Cons.prems show ?thesis by auto
  next
    case (Inr a)
    define intent where "intent = \<lparr>depositor = userAddress, amount = a, nonce = clock i,
        sourceDomain = source_domain src, destinationDomain = dest,
        recipient = vaultAddress s, maxFee = 0, deadline = dl\<rparr>"
    define td where "td = createBurnIntentTypedData intent (walletContracts s (source_domain src))
        (getChainIdForDomain (source_domain src))"
    have td: "sourceDomain (message td) = source_domain src" "deadline (message td) = dl"
      "recipient (message td) = ''0x000000000000000000000000'' @ drop 2 (vaultAddress s)"
      by (simp_all add: td_def intent_def createBurnIntentTypedData_def)
    show ?thesis
    proof (cases "signTypedData env w td")
      case (Inl e)
      with Inr Cons.prems have "effs = [Signed td]"
        by (auto simp: Let_def td_def intent_def)
      with td show ?thesis by simp
    next
      case sg: (Inr sg)
      obtain r' effs' where rec: "signSources env s w clock userAddress dest dl (Suc i)
          (acc @ [\<lparr>burnIntent = intent, signature = sg\<rparr>]) rest = (r', effs')"
        by (cases "signSources env s w clock userAddress dest dl (Suc i)
          (acc @ [\<lparr>burnIntent = intent, signature = sg\<rparr>]) rest")
      with Inr sg Cons.prems have "effs = Signed td # effs'"
        by (auto simp: Let_def td_def intent_def)
      with Cons.IH [OF rec] td show ?thesis by simp
    qed
  qed
qed

lemma signSources_result:
  assumes "signSources env s w clock userAddress dest dl i acc srcs = (Inr signedIntents, effs)"
  shows "\<exists>new. signedIntents = acc @ new \<and>
     map (\<lambda>si. sourceDomain (burnIntent si)) new = map source_domain srcs \<and>
     (\<forall>si \<in> set new. deadline (burnIntent si) = dl \<and> recipient (burnIntent si) = vaultAddress s)"
  using assms
proof (induction srcs arbitrary: i acc effs)
  case Nil
  then show ?case by auto
next
  case (Cons src rest)
  from Cons.prems obtain a where a: "StringToBigInt (source_amount src) = Inr a"
    by (cases "StringToBigInt (source_amount src)") auto
  define intent where "intent = \<lparr>depositor = userAddress, amount = a, nonce = clock i,
      sourceDomain = source_domain src, destinationDomain = dest,
      recipient = vaultAddress s, maxFee = 0, deadline = dl\<rparr>"
  define td where "td = createBurnIntentTypedData intent (walletContracts s (source_domain src))
      (getChainIdForDomain (source_domain src))"
  from Cons.prems a obtain sg where sg: "signTypedData env w td = Inr sg"
    by (cases "signTypedData env w td") (auto simp: Let_def td_def intent_def)
  obtain r' effs' where rec: "signSources env s w clock userAddress dest dl (Suc i)
      (acc @ [\<lparr>burnIntent = intent, signature = sg\<rparr>]) rest = (r', effs')"
    by (cases "signSources env s w clock userAddress dest dl (Suc i)
      (acc @ [\<lparr>burnIntent = intent, signature = sg\<rparr>]) rest")
  with a sg Cons.prems have "r' = Inr signedIntents"
    by (auto simp: Let_def td_def intent_def)
  with rec Cons.IH obtain new where
    new: "signedIntents = (acc @ [\<lparr>burnIntent = intent, signature = sg\<rparr>]) @ new"
      "map (\<lambda>si. sourceDomain (burnIntent si)) new = map source_domain rest"
      "\<forall>si \<in> set new. deadline (burnIntent si) = dl \<and> recipient (burnIntent si) = vaultAddress s"
    by blast
  show ?case
  proof (intro exI conjI)
    show "signedIntents = acc @ (\<lparr>burnIntent = intent, signature = sg\<rparr> # new)"
      using new(1) by simp
    show "map (\<lambda>si. sourceDomain (burnIntent si)) (\<lparr>burnIntent = intent, signature = sg\<rparr> # new) =
        map source_domain (src # rest)"
      using new(2) by (simp add: intent_def)
    show "\<forall>si \<in> set (\<lparr>burnIntent = intent, signature = sg\<rparr> # new).
        deadline (burnIntent si) = dl \<and> recipient (burnIntent si) = vaultAddress s"
      using new(3) by (simp add: intent_def)
  qed
qed

text \<open>What a call with a wallet client signs and submits.\<close>

lemma transferToVault_initialized:
  assumes "walletClient s = Some w" and "deadlineFrom (clock 0) = Inr dl"
    and "transferToVault env clock s userAddress sources totalAmount = (r, effs)"
  shows "\<exists>r' effs'. signSources env s w clock userAddress 3 dl 1 [] sources = (r', effs') \<and>
     signed_payloads effs = signed_payloads effs' \<and>
     (\<forall>batch \<in> set (submitted_batches effs). r' = Inr batch)"
proof -
  obtain r' effs' where rec:
    "signSources env s w clock userAddress 3 dl 1 [] sources = (r', effs')"
    by (cases "signSources env s w clock userAddress 3 dl 1 [] sources")
  from signSources_payloads [OF rec] have none: "submitted_batches effs' = []"
    by simp
  from assms rec none have "signed_payloads effs = signed_payloads effs' \<and>
     (\<forall>batch \<in> set (submitted_batches effs). r' = Inr batch)"
    by (auto simp: transferToVault_def arbitrumSepolia_domain Let_def signed_payloads_append
        submitted_batches_append split: sum.splits)
  with rec show ?thesis by blast
qed

lemma transferToVault_payloads:
  assumes "transferToVault env clock s userAddress sources totalAmount = (r, effs)"
  shows "map (\<lambda>td. sourceDomain (message td)) (signed_payloads effs) =
       take (length (signed_payloads effs)) (map source_domain sources) \<and>
     (\<forall>td \<in> set (signed_payloads effs).
        deadlineFrom (clock 0) = Inr (deadline (message td)) \<and>
        recipient (message td) = ''0x000000000000000000000000'' @ drop 2 (vaultAddress s)) \<and>
     (\<forall>batch \<in> set (submitted_batches effs).
        map (\<lambda>si. sourceDomain (burnIntent si)) batch = map source_domain sources \<and>
        (\<forall>si \<in> set batch. deadlineFrom (clock 0) = Inr (deadline (burnIntent si)) \<and>
           recipient (burnIntent si) = vaultAddress s))"
proof (cases "walletClient s")
  case None
  with assms show ?thesis
    by (auto simp: transferToVault_def)
next
  case (Some w)
  show ?thesis
  proof (cases "deadlineFrom (clock 0)")
    case (Inl e)
    with Some assms show ?thesis
      by (auto simp: transferToVault_def)
  next
    case (Inr dl)
    from transferToVault_initialized [where clock = clock, OF Some Inr assms] obtain r' effs' where
      rec: "signSources env s w clock userAddress 3 dl 1 [] sources = (r', effs')"
      and same: "signed_payloads effs = signed_payloads effs'"
      and sub: "\<forall>batch \<in> set (submitted_batches effs). r' = Inr batch"
      by blast
    have a: "map (\<lambda>td. sourceDomain (message td)) (signed_payloads effs) =
         take (length (signed_payloads effs)) (map source_domain sources) \<and>
       (\<forall>td \<in> set (signed_payloads effs).
          deadline (message td) = dl \<and>
          recipient (message td) = ''0x000000000000000000000000'' @ drop 2 (vaultAddress s))"
      using signSources_payloads [OF rec] same by simp
    have b: "map (\<lambda>si. sourceDomain (burnIntent si)) batch = map source_domain sources \<and>
          (\<forall>si \<in> set batch. deadline (burnIntent si) = dl \<and>
             recipient (burnIntent si) = vaultAddress s)"
      if "batch \<in> set (submitted_batches effs)" for batch
    proof -
      from that sub have "r' = Inr batch" by simp
      with rec have "signSources env s w clock userAddress 3 dl 1 [] sources = (Inr batch, effs')"
        by simp
      from signSources_result [OF this] show ?thesis
        by auto
    qed
    from a b Inr show ?thesis by simp
  qed
qed







lemma sample_service_contracts: "walletContracts sample_service 99 = None"
  by (simp add: sample_service_def initialize_def sample_env_def new_service_def)

lemma sample_transfer_99:
  "transferToVault sample_env sample_clock sample_service ''0xab''
       [\<lparr>source_domain = 99, source_amount = ''1''\<rparr>] 1 =
     (Inr [\<lparr>attested_intent =
             \<lparr>depositor = ''0xab'', amount = 1, nonce = 1700000000124, sourceDomain = 99,
              destinationDomain = 3, recipient = sample_vault, maxFee = 0,
              deadline = 1700003600\<rparr>,
            attestation = ''0xa7''\<rparr>],
      [Signed (createBurnIntentTypedData
          \<lparr>depositor = ''0xab'', amount = 1, nonce = 1700000000124, sourceDomain = 99,
           destinationDomain = 3, recipient = sample_vault, maxFee = 0,
           deadline = 1700003600\<rparr> None 0),
       Submitted [\<lparr>burnIntent =
           \<lparr>depositor = ''0xab'', amount = 1, nonce = 1700000000124, sourceDomain = 99,
            destinationDomain = 3, recipient = sample_vault, maxFee = 0,
            deadline = 1700003600\<rparr>,
          signature = ''0x51''\<rparr>]])"
  by (simp add: transferToVault_def sample_service_wallet sample_service_vault
        StringToBigInt_1 arbitrumSepolia_domain sample_clock_def sample_deadline
        sample_env_sign sample_env_transfer Let_def getChainIdForDomain_def chainIdMapping_def
        sample_service_contracts)




lemma digit_of_0: "digit_of CHR ''0'' = Some 0"
  by (simp add: digit_of_def)

lemma hexToBytes_zeros:
  "hexToBytes (replicate (2 * n) CHR ''0'' @ hs) = map_option ((@) (replicate n 0)) (hexToBytes hs)"
proof (induction n)
  case 0
  show ?case by (simp add: option.map_ident)
next
  case (Suc n)
  then show ?case
    by (cases "hexToBytes hs") (simp_all add: digit_of_0)
qed

lemma padding: "''0x000000000000000000000000'' = ''0x'' @ replicate (2 * 12) CHR ''0''"
  by (simp add: numeral_eq_Suc)

text \<open>
  C6. Let the vault address be \<^verbatim>\<open>0x\<close> and 40 hex digits, that is 20 bytes. Every
  burn intent that \<^verbatim>\<open>transferToVault\<close> builds in a call that reads the clock at
  \<open>clock 0\<close> milliseconds (a time value, within \<open>8.64 * 10 ^ 15\<close> of the epoch),
  that is at \<open>T = clock 0 div 1000\<close> seconds, has the deadline \<open>T + 3600\<close>,
  in the payload signed and in the batch submitted; the recipient of the payload's
  message is \<^verbatim>\<open>0x\<close>, 24 zero digits and the 40 digits of the vault address, which
  are 32 bytes: 12 zero bytes and the 20 bytes of the address.
\<close>

theorem transferToVault_deadline_recipient:
  assumes "vaultAddress s = ''0x'' @ hs" and "hexToBytes hs = Some bs" and "length bs = 20"
    and "\<bar>clock 0\<bar> \<le> 8640000000000000"
    and "transferToVault env clock s userAddress sources totalAmount = (r, effs)"
  shows "(\<forall>td \<in> set (signed_payloads effs).
        deadline (message td) = clock 0 div 1000 + 3600 \<and>
        recipient (message td) = ''0x'' @ replicate 24 CHR ''0'' @ hs \<and>
        hexToBytes (drop 2 (recipient (message td))) = Some (replicate 12 0 @ bs) \<and>
        length (replicate 12 (0::nat) @ bs) = 32) \<and>
     (\<forall>batch \<in> set (submitted_batches effs). \<forall>si \<in> set batch.
        deadline (burnIntent si) = clock 0 div 1000 + 3600 \<and>
        recipient (burnIntent si) = vaultAddress s)"
proof -
  note p = transferToVault_payloads [OF assms(5)]
  note dl = deadlineFrom_exact [OF assms(4)]
  have rec: "''0x000000000000000000000000'' @ drop 2 (vaultAddress s) =
      ''0x'' @ replicate (2 * 12) CHR ''0'' @ hs"
    unfolding padding assms(1) by simp
  have bytes: "hexToBytes (drop 2 (''0x'' @ replicate (2 * 12) CHR ''0'' @ hs)) =
      Some (replicate 12 0 @ bs)"
    using hexToBytes_zeros [of 12 hs] assms(2) by simp
  have "\<forall>td \<in> set (signed_payloads effs).
        deadline (message td) = clock 0 div 1000 + 3600 \<and>
        recipient (message td) = ''0x'' @ replicate (2 * 12) CHR ''0'' @ hs"
    using p rec dl by simp
  with bytes assms(3) have a: "\<forall>td \<in> set (signed_payloads effs).
        deadline (message td) = clock 0 div 1000 + 3600 \<and>
        recipient (message td) = ''0x'' @ replicate 24 CHR ''0'' @ hs \<and>
        hexToBytes (drop 2 (recipient (message td))) = Some (replicate 12 0 @ bs) \<and>
        length (replicate 12 (0::nat) @ bs) = 32"
    by simp
  have b: "\<forall>batch \<in> set (submitted_batches effs). \<forall>si \<in> set batch.
        deadline (burnIntent si) = clock 0 div 1000 + 3600 \<and>
        recipient (burnIntent si) = vaultAddress s"
    using p dl by simp
  from a b show ?thesis by blast
qed

lemma sample_vault_hex: "sample_vault = ''0x'' @ replicate 40 CHR ''1''"
  by (simp add: sample_vault_def numeral_eq_Suc)

lemma digit_of_1: "digit_of CHR ''1'' = Some 1"
  by (simp add: digit_of_def)

lemma hexToBytes_ones: "hexToBytes (replicate (2 * n) CHR ''1'') = Some (replicate n 17)"
  by (induction n) (simp_all add: digit_of_1)

lemma sample_vault_bytes: "hexToBytes (replicate 40 CHR ''1'') = Some (replicate 20 17)"
  using hexToBytes_ones [of 20] by simp

lemma sample_transfer_payloads:
  "signed_payloads (snd (transferToVault sample_env sample_clock sample_service ''0xab''
       [\<lparr>source_domain = 0, source_amount = ''1000000''\<rparr>] 1000000)) =
     [createBurnIntentTypedData
        \<lparr>depositor = ''0xab'', amount = 1000000, nonce = 1700000000124, sourceDomain = 0,
         destinationDomain = 3, recipient = sample_vault, maxFee = 0, deadline = 1700003600\<rparr>
        (walletContracts sample_service 0) 11155111]"
  by (simp add: transferToVault_def sample_service_wallet sample_service_vault
        StringToBigInt_1000000 arbitrumSepolia_domain sample_clock_def sample_deadline
        sample_env_sign sample_env_transfer Let_def getChainIdForDomain_def chainIdMapping_def)

theorem transferToVault_deadline_recipient_witness:
  "\<exists>td. signed_payloads (snd (transferToVault sample_env sample_clock sample_service ''0xab''
       [\<lparr>source_domain = 0, source_amount = ''1000000''\<rparr>] 1000000)) = [td] \<and>
     deadline (message td) = sample_clock 0 div 1000 + 3600 \<and>
     recipient (message td) = ''0x'' @ replicate 24 CHR ''0'' @ replicate 40 CHR ''1'' \<and>
     hexToBytes (drop 2 (recipient (message td))) = Some (replicate 12 0 @ replicate 20 17)"
proof -
  obtain r effs where t: "transferToVault sample_env sample_clock sample_service ''0xab''
       [\<lparr>source_domain = 0, source_amount = ''1000000''\<rparr>] 1000000 = (r, effs)"
    by (cases "transferToVault sample_env sample_clock sample_service ''0xab''
       [\<lparr>source_domain = 0, source_amount = ''1000000''\<rparr>] 1000000")
  have v: "vaultAddress sample_service = ''0x'' @ replicate 40 CHR ''1''"
    by (simp add: sample_service_vault sample_vault_hex)
  have l: "length (replicate 20 (17::nat)) = 20"
    by simp
  have c: "\<bar>sample_clock 0\<bar> \<le> 8640000000000000"
    by (simp add: sample_clock_def)
  from sample_transfer_payloads t obtain td where td: "signed_payloads effs = [td]"
    by simp
  from td have "td \<in> set (signed_payloads effs)"
    by simp
  with transferToVault_deadline_recipient [OF v sample_vault_bytes l c t]
  have "deadline (message td) = sample_clock 0 div 1000 + 3600 \<and>
     recipient (message td) = ''0x'' @ replicate 24 CHR ''0'' @ replicate 40 CHR ''1'' \<and>
     hexToBytes (drop 2 (recipient (message td))) = Some (replicate 12 0 @ replicate 20 17)"
    by blast
  moreover from t td have "signed_payloads (snd (transferToVault sample_env sample_clock
       sample_service ''0xab'' [\<lparr>source_domain = 0, source_amount = ''1000000''\<rparr>] 1000000)) = [td]"
    by simp
  ultimately show ?thesis
    by blast
qed

section \<open>Parsing an oracle configuration\<close>

text \<open>
  The conversions \<^verbatim>\<open>String\<close> and \<^verbatim>\<open>Number\<close> throw a TypeError on a value
  that is not convertible, and on no other.
\<close>

lemma join_cases:
  assumes "\<forall>x \<in> set rs. (\<exists>str. x = Inr str) \<or> x = Inl TypeError"
  shows "(if \<forall>x \<in> set rs. \<exists>str. x = Inr str then \<exists>str. join rs = Inr str
          else join rs = Inl TypeError)"
  using assms
proof (induction rs rule: join.induct)
  case 1
  show ?case by simp
next
  case (2 x)
  then show ?case by auto
next
  case (3 x y ys)
  show ?case
  proof (cases x)
    case (Inl e)
    with "3.prems" have "x = Inl TypeError" by auto
    then show ?thesis by simp
  next
    case (Inr a)
    from "3.prems" have "\<forall>x \<in> set (y # ys). (\<exists>str. x = Inr str) \<or> x = Inl TypeError"
      by simp
    from "3.IH" [OF Inr this] Inr show ?thesis
      by (auto split: if_splits)
  qed
qed

lemma ToString_cases:
  "(if convertible v then \<exists>str. ToString ns v = Inr str else ToString ns v = Inl TypeError)"
proof (induction v)
  case (JArray xs)
  define f where "f = (\<lambda>x. if x = JUndefined \<or> x = JNull then Inr [] else ToString ns x)"
  have each: "(if convertible x then \<exists>str. f x = Inr str else f x = Inl TypeError)"
    if "x \<in> set xs" for x
  proof (cases "x = JUndefined \<or> x = JNull")
    case True
    then show ?thesis by (auto simp: f_def)
  next
    case False
    then have "f x = ToString ns x" by (simp add: f_def)
    with JArray [OF that] show ?thesis by simp
  qed
  have all: "\<forall>r \<in> set (map f xs). (\<exists>str. r = Inr str) \<or> r = Inl TypeError"
  proof
    fix r assume "r \<in> set (map f xs)"
    then obtain x where x: "x \<in> set xs" "r = f x" by auto
    from each [OF x(1)] show "(\<exists>str. r = Inr str) \<or> r = Inl TypeError"
      unfolding x(2) by (cases "convertible x") simp_all
  qed
  have iff: "(\<forall>r \<in> set (map f xs). \<exists>str. r = Inr str) \<longleftrightarrow> (\<forall>x \<in> set xs. convertible x)"
  proof
    assume l: "\<forall>r \<in> set (map f xs). \<exists>str. r = Inr str"
    show "\<forall>x \<in> set xs. convertible x"
    proof
      fix x assume x: "x \<in> set xs"
      with l obtain str where "f x = Inr str" by auto
      with each [OF x] show "convertible x" by (cases "convertible x") simp_all
    qed
  next
    assume r: "\<forall>x \<in> set xs. convertible x"
    show "\<forall>r \<in> set (map f xs). \<exists>str. r = Inr str"
    proof
      fix r assume "r \<in> set (map f xs)"
      then obtain x where x: "x \<in> set xs" "r = f x" by auto
      with r each [OF x(1)] show "\<exists>str. r = Inr str" by simp
    qed
  qed
  have "ToString ns (JArray xs) = join (map f xs)"
    by (simp add: f_def)
  with join_cases [OF all] iff show ?case
    by (cases "\<forall>x \<in> set xs. convertible x") simp_all
next
  case (JObject kvs)
  show ?case by simp
qed simp_all

lemma ToNumber_cases:
  "(if convertible v then \<exists>n. ToNumber ns v = Inr n else ToNumber ns v = Inl TypeError)"
  using ToString_cases [of v ns]
  by (cases v) (auto simp: ToNumber_def split: if_splits)

lemma falsy_convertible: "\<not> truthy v \<Longrightarrow> convertible v"
  by (cases v) simp_all

lemma ToNumber_zero: "ToNumber ns (JNumber (Fin 0)) = Inr (Fin 0)"
  by (simp add: ToNumber_def)

lemma ToString_js_or:
  "ToString ns (js_or v (JString [])) =
     (if truthy v then ToString ns v else Inr [])"
  by (simp add: js_or_def)

lemma ToNumber_js_or:
  "ToNumber ns (js_or v (JNumber (Fin 0))) =
     (if truthy v then ToNumber ns v else Inr (Fin 0))"
  by (simp add: js_or_def ToNumber_def)

text \<open>
  C10, as far as it holds. \<^verbatim>\<open>parseOracleConfig\<close> returns \<^verbatim>\<open>null\<close> exactly
  when its argument is not an object whose \<^verbatim>\<open>type\<close> is \<^verbatim>\<open>'price'\<close> or
  \<^verbatim>\<open>'manual'\<close>; for \<^verbatim>\<open>'manual'\<close> it returns the manual configuration; for
  \<^verbatim>\<open>'price'\<close> it returns a price configuration in which a missing or falsy
  \<^verbatim>\<open>asset\<close>, \<^verbatim>\<open>condition\<close> or \<^verbatim>\<open>targetPrice\<close> is replaced by the empty
  string, \<^verbatim>\<open>'>'\<close> or 0, provided the asset and the target price are convertible;
  when one of them is not, the call throws a TypeError. Every primitive value is
  convertible, so the call throws only for an asset or target price that is an object
  with a member named \<^verbatim>\<open>toString\<close>, or an array that holds one.
\<close>

theorem parseOracleConfig_cases:
  "(parseOracleConfig ns j = Inr None \<longleftrightarrow>
      \<not> (is_object j \<and>
         (get_field j ''type'' = JString ''price'' \<or> get_field j ''type'' = JString ''manual''))) \<and>
   (is_object j \<and> get_field j ''type'' = JString ''manual'' \<longrightarrow>
      parseOracleConfig ns j = Inr (Some ManualConfig)) \<and>
   (is_object j \<and> get_field j ''type'' = JString ''price'' \<and>
      convertible (get_field j ''asset'') \<and> convertible (get_field j ''targetPrice'') \<longrightarrow>
      (\<exists>a t. ToString ns (get_field j ''asset'') = Inr a \<and>
         ToNumber ns (get_field j ''targetPrice'') = Inr t \<and>
         parseOracleConfig ns j = Inr (Some (PriceConfig
           \<lparr>asset = (if truthy (get_field j ''asset'') then a else []),
            condition = (if truthy (get_field j ''condition'') then get_field j ''condition''
                         else JString ''>''),
            targetPrice = (if truthy (get_field j ''targetPrice'') then t else Fin 0)\<rparr>)))) \<and>
   (is_object j \<and> get_field j ''type'' = JString ''price'' \<and>
      \<not> (convertible (get_field j ''asset'') \<and> convertible (get_field j ''targetPrice'')) \<longrightarrow>
      parseOracleConfig ns j = Inl TypeError)"
proof (cases "is_object j")
  case False
  then show ?thesis
    by (auto simp: parseOracleConfig_def is_object_def)
next
  case obj: True
  show ?thesis
  proof (cases "get_field j ''type'' = JString ''price''")
    case price: True
    note sa = ToString_cases [of "get_field j ''asset''" ns]
    note ta = ToNumber_cases [of "get_field j ''targetPrice''" ns]
    show ?thesis
    proof (cases "convertible (get_field j ''asset'')")
      case ca: True
      with sa obtain a where a: "ToString ns (get_field j ''asset'') = Inr a"
        by auto
      show ?thesis
      proof (cases "convertible (get_field j ''targetPrice'')")
        case ct: True
        with ta obtain t where t: "ToNumber ns (get_field j ''targetPrice'') = Inr t"
          by auto
        from obj price ca ct a t show ?thesis
          by (simp add: parseOracleConfig_def is_object_def js_or_def ToNumber_zero)
      next
        case ct: False
        with ta have t: "ToNumber ns (get_field j ''targetPrice'') = Inl TypeError"
          by simp
        from ct have "truthy (get_field j ''targetPrice'')"
          using falsy_convertible by blast
        with obj price ca ct a t show ?thesis
          by (simp add: parseOracleConfig_def is_object_def ToString_js_or ToNumber_js_or)
      qed
    next
      case ca: False
      with sa have a: "ToString ns (get_field j ''asset'') = Inl TypeError"
        by simp
      from ca have "truthy (get_field j ''asset'')"
        using falsy_convertible by blast
      with obj price ca a show ?thesis
        by (simp add: parseOracleConfig_def is_object_def ToString_js_or)
    qed
  next
    case False
    with obj show ?thesis
      by (auto simp: parseOracleConfig_def is_object_def)
  qed
qed

lemma StringToNumber_42: "StringToNumber ''42'' = Fin 42"
  by code_simp

theorem parseOracleConfig_cases_witness:
  "parseOracleConfig sample_number_string
      (JObject [(''type'', JString ''price''), (''targetPrice'', JString ''42'')]) =
     Inr (Some (PriceConfig \<lparr>asset = [], condition = JString ''>'', targetPrice = Fin 42\<rparr>)) \<and>
   parseOracleConfig sample_number_string (JObject [(''type'', JString ''manual'')]) =
     Inr (Some ManualConfig) \<and>
   parseOracleConfig sample_number_string (JArray [JString ''price'']) = Inr None"
  using parseOracleConfig_cases [of sample_number_string
      "JObject [(''type'', JString ''price''), (''targetPrice'', JString ''42'')]"]
    parseOracleConfig_cases [of sample_number_string "JObject [(''type'', JString ''manual'')]"]
    parseOracleConfig_cases [of sample_number_string "JArray [JString ''price'']"]
  by (simp add: is_object_def get_field_def ToNumber_def StringToNumber_42)

text \<open>
  The parsed JSON text \<^verbatim>\<open>{"type": "price", "asset": {"toString": 1}}\<close> makes
  \<^verbatim>\<open>String(config.asset || '')\<close> throw.
\<close>

theorem parseOracleConfig_cases_counterexample:
  "parseOracleConfig sample_number_string
      (JObject [(''type'', JString ''price''),
                (''asset'', JObject [(''toString'', JNumber (Fin 1))])]) = Inl TypeError"
  by (simp add: parseOracleConfig_def get_field_def js_or_def)

section \<open>Further properties of the gateway service\<close>

text \<open>
  \<^verbatim>\<open>initialize\<close> with a private key that the signing library accepts binds
  the derived address as server address and a wallet client for that account, and
  changes nothing else of the service.
\<close>

theorem initialize_binds_signer:
  assumes "privateKeyToAccount env privateKey = Inr a"
  shows "initialize env privateKey s =
     (Inr (), s\<lparr>serverAddress := Some a,
               walletClient := Some \<lparr>account = a, wallet_chain = ''arbitrumSepolia''\<rparr>\<rparr>)"
  using assms by (simp add: initialize_def)

theorem initialize_binds_signer_instance:
  "initialize sample_env ''0x01'' (new_service None) =
     (Inr (), (new_service None)\<lparr>serverAddress := Some ''0x00000000000000000000000000000000000000aa'',
               walletClient := Some \<lparr>account = ''0x00000000000000000000000000000000000000aa'',
                 wallet_chain = ''arbitrumSepolia''\<rparr>\<rparr>)"
proof -
  have "privateKeyToAccount sample_env ''0x01'' = Inr ''0x00000000000000000000000000000000000000aa''"
    by (simp add: sample_env_def)
  then show ?thesis
    by (rule initialize_binds_signer)
qed

text \<open>
  When the balances call answers and every balance is a number,
  \<^verbatim>\<open>getUnifiedBalance\<close> returns the address as given, the total, the per-domain
  object and the clock reading, and stores that record in the cache under the
  lower-case address, leaving the other entries.
\<close>

theorem getUnifiedBalance_success:
  assumes "balances env ''USDC'' a None = Inr response"
    and "sumBalances response [] 0 = Inr (cb, tot)"
  shows "getUnifiedBalance env now s a =
     (Inr \<lparr>address = a, totalBalance = tot, chainBalances = cb, lastUpdated = now\<rparr>,
      s\<lparr>balanceCache := (balanceCache s)(toLowerCase a \<mapsto>
          \<lparr>address = a, totalBalance = tot, chainBalances = cb, lastUpdated = now\<rparr>)\<rparr>)"
  using assms by (simp add: getUnifiedBalance_def Let_def)

theorem getUnifiedBalance_success_instance:
  "getUnifiedBalance sample_env 1700000000000 (new_service None) ''0xAB'' =
     (Inr \<lparr>address = ''0xAB'', totalBalance = 15500000,
        chainBalances = [(0, 10000000), (1, 5500000)], lastUpdated = 1700000000000\<rparr>,
      (new_service None)\<lparr>balanceCache := (balanceCache (new_service None))(toLowerCase ''0xAB'' \<mapsto>
          \<lparr>address = ''0xAB'', totalBalance = 15500000,
        chainBalances = [(0, 10000000), (1, 5500000)], lastUpdated = 1700000000000\<rparr>)\<rparr>)"
proof -
  have "sumBalances [\<lparr>domain = 0, balance = ''10.0''\<rparr>, \<lparr>domain = 1, balance = ''5.5''\<rparr>] [] 0 =
      Inr ([(0, 10000000), (1, 5500000)], 15500000)"
    by (simp add: parseAmount_10 parseAmount_5_5)
  with sample_balances show ?thesis
    by (rule getUnifiedBalance_success)
qed

text \<open>
  For every time value, \<^verbatim>\<open>BigInt(Math.floor(Date.now() / 1000) + 3600)\<close>,
  evaluated in binary64 arithmetic, is the whole seconds of the clock reading plus 3600.
\<close>

theorem deadline_is_an_hour_ahead:
  assumes "\<bar>now\<bar> \<le> 8640000000000000"
  shows "deadlineFrom now = Inr (now div 1000 + 3600)"
  using assms by (rule deadlineFrom_exact)

theorem deadline_is_an_hour_ahead_instance:
  "deadlineFrom 1700000000123 = Inr 1700003600 \<and> deadlineFrom (- 1) = Inr 3599"
  using deadline_is_an_hour_ahead [of 1700000000123] deadline_is_an_hour_ahead [of "- 1"]
  by simp

text \<open>
  When \<^verbatim>\<open>transferToVault\<close> submits a batch, its outcome is the answer of the
  Gateway API to that batch, a failure included, and the submission is the last effect,
  after the signatures.
\<close>

theorem transferToVault_submission_outcome:
  assumes "transferToVault env clock s userAddress sources totalAmount = (r, effs)"
    and "batch \<in> set (submitted_batches effs)"
  shows "r = post_transfer env batch \<and> effs = map Signed (signed_payloads effs) @ [Submitted batch]"
proof (cases "walletClient s")
  case None
  with assms show ?thesis
    by (auto simp: transferToVault_def)
next
  case (Some w)
  show ?thesis
  proof (cases "deadlineFrom (clock 0)")
    case (Inl e)
    with Some assms show ?thesis
      by (auto simp: transferToVault_def)
  next
    case (Inr dl)
    obtain r' effs' where rec:
      "signSources env s w clock userAddress 3 dl 1 [] sources = (r', effs')"
      by (cases "signSources env s w clock userAddress 3 dl 1 [] sources")
    from signSources_payloads [OF rec] have none: "submitted_batches effs' = []"
      by simp
    have only_signed: "es = map Signed (signed_payloads es)" if "submitted_batches es = []" for es
      using that by (induction es rule: signed_payloads.induct) simp_all
    from only_signed [OF none] have effs': "effs' = map Signed (signed_payloads effs')" .
    show ?thesis
    proof (cases r')
      case e: (Inl e)
      with Some Inr rec assms none show ?thesis
        by (auto simp: transferToVault_def arbitrumSepolia_domain)
    next
      case sis: (Inr signedIntents)
      with Some Inr rec assms none effs' show ?thesis
        by (auto simp: transferToVault_def arbitrumSepolia_domain transfer_def
            submitted_batches_append signed_payloads_append split: sum.splits)
    qed
  qed
qed

theorem transferToVault_submission_outcome_instance:
  "fst (transferToVault sample_env sample_clock sample_service ''0xab''
       [\<lparr>source_domain = 99, source_amount = ''1''\<rparr>] 1) =
   post_transfer sample_env
     [\<lparr>burnIntent =
         \<lparr>depositor = ''0xab'', amount = 1, nonce = 1700000000124, sourceDomain = 99,
          destinationDomain = 3, recipient = sample_vault, maxFee = 0,
          deadline = 1700003600\<rparr>,
       signature = ''0x51''\<rparr>]"
  using transferToVault_submission_outcome [OF sample_transfer_99, where batch =
     "[\<lparr>burnIntent =
         \<lparr>depositor = ''0xab'', amount = 1, nonce = 1700000000124, sourceDomain = 99,
          destinationDomain = 3, recipient = sample_vault, maxFee = 0,
          deadline = 1700003600\<rparr>,
       signature = ''0x51''\<rparr>]"]
  by (simp add: sample_transfer_99)

end
